theory Spec2Isabelle
  imports Main
begin

section \<open>The SMART-on-FHIR server extension\<close>

text \<open>
  A shallow embedding of \<^verbatim>\<open>jupyter_smart_on_fhir/server_extension.py\<close>: the three
  tornado handlers \<^verbatim>\<open>SMARTAuthHandler\<close>, \<^verbatim>\<open>SMARTLoginHandler\<close> and
  \<^verbatim>\<open>SMARTCallbackHandler\<close>. A handler run is a function from the process-wide
  settings dictionary and the request to a record of everything the run does: the
  response or the exception it ends with, the signed cookies it sets, the settings it
  leaves behind, the outbound requests it makes and what it writes to the process
  environment.

  Python \<^verbatim>\<open>str\<close> and \<^verbatim>\<open>bytes\<close> values are both \<^typ>\<open>string\<close>: the UTF-8 bytes
  of the text, so \<^verbatim>\<open>encode("utf-8")\<close> and \<^verbatim>\<open>decode\<close> of a value the server wrote
  itself are the identity.
\<close>

subsection \<open>Exceptions and responses\<close>

text \<open>
  The exceptions a run can end with. \<^verbatim>\<open>tornado.web.HTTPError\<close> carries its status and
  log message; \<^verbatim>\<open>MissingArgumentError\<close> is the subclass that \<^verbatim>\<open>get_argument\<close>
  raises, with status 400; \<^verbatim>\<open>tornado.httpclient.HTTPClientError\<close> is a different
  class that is not a \<^verbatim>\<open>web.HTTPError\<close>.
\<close>

datatype exn =
    HTTPError nat string
  | MissingArgumentError string
  | HTTPClientError nat
  | KeyError string
  | AttributeError string
  | TypeError string
  | ValueError string
  | JSONDecodeError
  | OtherError string

datatype response =
    Redirect string
  | Write string string

text \<open>
  The status the client sees. \<^verbatim>\<open>RequestHandler.redirect\<close> answers 302 by default; a
  finished handler that wrote a body answers 200; an uncaught exception goes through
  tornado's \<^verbatim>\<open>_handle_request_exception\<close>, which sends the status of a
  \<^verbatim>\<open>web.HTTPError\<close> and 500 for every other exception.
\<close>

fun status_code :: "exn + response \<Rightarrow> nat" where
  "status_code (Inr (Redirect u)) = 302"
| "status_code (Inr (Write t b)) = 200"
| "status_code (Inl (HTTPError s m)) = s"
| "status_code (Inl (MissingArgumentError a)) = 400"
| "status_code (Inl e) = 500"

subsection \<open>JSON values\<close>

text \<open>
  What \<^verbatim>\<open>json.loads\<close> returns: \<^verbatim>\<open>None\<close>, a boolean, a number (by its integer
  value; fractions play no part in what follows), a string, a list or a dictionary.
\<close>

datatype json =
    JNull
  | JBool bool
  | JNum int
  | JStr string
  | JArr "json list"
  | JObj "(string \<times> json) list"

text \<open>Python truth value of a decoded JSON value (\<^verbatim>\<open>if not token\<close>).\<close>

fun truthy :: "json \<Rightarrow> bool" where
  "truthy JNull = False"
| "truthy (JBool b) = b"
| "truthy (JNum n) = (n \<noteq> 0)"
| "truthy (JStr s) = (s \<noteq> [])"
| "truthy (JArr xs) = (xs \<noteq> [])"
| "truthy (JObj kvs) = (kvs \<noteq> [])"

text \<open>
  \<^verbatim>\<open>json.loads(body)["access_token"]\<close> on the decoded value: a dictionary is
  subscripted by key (the last of repeated keys wins in \<^verbatim>\<open>json.loads\<close>), every other
  value raises \<^verbatim>\<open>TypeError\<close>.
\<close>

fun subscript :: "json \<Rightarrow> string \<Rightarrow> exn + json" where
  "subscript (JObj kvs) k =
     (case map_of (rev kvs) k of None \<Rightarrow> Inl (KeyError k) | Some v \<Rightarrow> Inr v)"
| "subscript j k = Inl (TypeError ''subscript'')"

subsection \<open>URL encoding\<close>

text \<open>
  \<^verbatim>\<open>urllib.parse.quote_plus(s, safe='')\<close> as \<^verbatim>\<open>urlencode\<close> calls it: letters,
  digits and \<^verbatim>\<open>_.-~\<close> stay, a space becomes \<^verbatim>\<open>+\<close>, every other byte becomes
  \<^verbatim>\<open>%XX\<close> with upper-case hexadecimal digits.
\<close>

definition always_safe :: "char \<Rightarrow> bool" where
  "always_safe c \<longleftrightarrow>
     c \<in> set ''ABCDEFGHIJKLMNOPQRSTUVWXYZabcdefghijklmnopqrstuvwxyz0123456789_.-~''"

definition hex_digit :: "nat \<Rightarrow> char" where
  "hex_digit n = ''0123456789ABCDEF'' ! (n mod 16)"

definition quote_char :: "char \<Rightarrow> string" where
  "quote_char c =
     (if always_safe c then [c]
      else if c = CHR '' '' then ''+''
      else [CHR ''%'', hex_digit (of_char c div 16), hex_digit (of_char c mod 16)])"

definition quote_plus :: "string \<Rightarrow> string" where
  "quote_plus s = concat (map quote_char s)"

text \<open>\<^verbatim>\<open>sep.join(xs)\<close>.\<close>

fun str_join :: "string \<Rightarrow> string list \<Rightarrow> string" where
  "str_join sep [] = []"
| "str_join sep [x] = x"
| "str_join sep (x # y # ys) = x @ sep @ str_join sep (y # ys)"

text \<open>
  \<^verbatim>\<open>urllib.parse.urlencode(query)\<close> on a dictionary of already stringified values,
  in insertion order.
\<close>

definition urlencode :: "(string \<times> string) list \<Rightarrow> string" where
  "urlencode q = str_join ''&'' (map (\<lambda>(k, v). quote_plus k @ ''='' @ quote_plus v) q)"

text \<open>\<^verbatim>\<open>str(v)\<close> of a value that is a string or \<^verbatim>\<open>None\<close>, as \<^verbatim>\<open>urlencode\<close> applies it.\<close>

fun py_str :: "string option \<Rightarrow> string" where
  "py_str None = ''None''"
| "py_str (Some s) = s"

subsection \<open>Settings, requests and runs\<close>

text \<open>
  Modelled from the spec: the class \<^verbatim>\<open>SMARTConfig\<close> is declared in
  \<^verbatim>\<open>jupyter_smart_on_fhir/auth.py\<close>, which is not among the sources. It is the
  \<open>IssuerConfig\<close> of section 3 (FHIR base URL, authorization endpoint, token endpoint),
  under the three attribute names the handlers read.
\<close>

record SMARTConfig =
  fhir_url :: string
  auth_url :: string
  token_url :: string

text \<open>
  The settings dictionary shared by all handlers of the process. The first seven keys are
  always present (\<^verbatim>\<open>initialize_settings\<close> and the server write them); \<^verbatim>\<open>launch\<close>,
  \<^verbatim>\<open>smart_config\<close>, \<^verbatim>\<open>smart_token\<close> and \<^verbatim>\<open>next_url\<close> are written by the
  handlers, so each is an option: \<^term>\<open>None\<close> is an absent key. The value under
  \<^verbatim>\<open>launch\<close> may itself be Python's \<^verbatim>\<open>None\<close>.
\<close>

record settings =
  scopes :: "string list"
  client_id :: string
  smart_redirect_uri :: string
  smart_default_issuer :: string
  smart_default_launch_url :: string
  base_url :: string
  login_url :: string
  launch :: "string option option"
  smart_config :: "SMARTConfig option"
  smart_token :: "json option"
  next_url :: "string option"

text \<open>
  The request as the handlers read it. \<^term>\<open>arguments\<close> is tornado's
  \<^verbatim>\<open>request.arguments\<close> with each value as \<^verbatim>\<open>get_arguments\<close> returns it (decoded
  and stripped); \<^term>\<open>signed_cookies\<close> gives for a cookie name the value
  \<^verbatim>\<open>get_signed_cookie\<close> returns: \<^term>\<open>None\<close> when the cookie is absent, expired or
  its signature does not verify.
\<close>

record request =
  protocol :: string
  host :: string
  uri :: string
  arguments :: "string \<Rightarrow> string list option"
  signed_cookies :: "string \<Rightarrow> string option"
  current_user :: "string option"

record http_request =
  url :: string
  http_method :: string
  headers :: "(string \<times> string) list"
  body :: string

text \<open>
  What \<^verbatim>\<open>AsyncHTTPClient().fetch\<close> does with a request: a reply with its body
  (decoded with \<^verbatim>\<open>"replace"\<close>), an \<^verbatim>\<open>HTTPClientError\<close> with its code and the body
  of its response (\<^term>\<open>None\<close> when the error has no response), or another exception.
\<close>

datatype fetch_result =
    Reply string
  | ClientError nat "string option"
  | Failure string

text \<open>
  Modelled from the spec: \<^verbatim>\<open>generate_state()\<close> is a function of \<^verbatim>\<open>auth.py\<close>. Its
  result is the \<open>FlowState\<close> of section 3, a dictionary of which the login handler reads
  the keys \<^verbatim>\<open>state_id\<close> and \<^verbatim>\<open>next_url\<close>; the state identifier is a random draw,
  so the whole result is an input of the run.
\<close>

record flow_state =
  state_id :: string
  state_next_url :: "string option"

text \<open>
  Everything a run takes from outside the module: the result of \<^verbatim>\<open>generate_state()\<close>,
  the draw of \<^verbatim>\<open>secrets.token_urlsafe\<close>, \<^verbatim>\<open>hashlib.sha256(...).digest()\<close>, the
  token endpoint behind \<^verbatim>\<open>AsyncHTTPClient().fetch\<close>, \<^verbatim>\<open>json.loads\<close> (\<^term>\<open>None\<close>
  when it raises), and the two parts of issuer discovery: which strings are well-formed
  absolute URLs, and what fetching the configuration document of an issuer gives.
\<close>

record env =
  generate_state :: flow_state
  token_urlsafe :: "nat \<Rightarrow> string"
  sha256 :: "string \<Rightarrow> string"
  fetch :: "http_request \<Rightarrow> fetch_result"
  json_loads :: "string \<Rightarrow> json option"
  well_formed_absolute_url :: "string \<Rightarrow> bool"
  fetch_configuration :: "string \<Rightarrow> exn + SMARTConfig"

record run =
  outcome :: "exn + response"
  new_cookies :: "(string \<times> string) list"
  settings_after :: settings
  fetches :: "http_request list"
  environ :: "(string \<times> string) list"

definition raise :: "settings \<Rightarrow> exn \<Rightarrow> run" where
  "raise st e =
     \<lparr>outcome = Inl e, new_cookies = [], settings_after = st, fetches = [], environ = []\<rparr>"

definition respond :: "settings \<Rightarrow> response \<Rightarrow> run" where
  "respond st r =
     \<lparr>outcome = Inr r, new_cookies = [], settings_after = st, fetches = [], environ = []\<rparr>"

definition smart_path :: string where "smart_path = ''/smart''"
definition login_path :: string where "login_path = ''/smart/login''"
definition callback_path :: string where "callback_path = ''/smart/oauth_callback''"

subsection \<open>Framework primitives\<close>

text \<open>
  \<^verbatim>\<open>get_argument(name)\<close> returns the last value and raises
  \<^verbatim>\<open>MissingArgumentError\<close> when there is none; with a default it returns the default
  instead.
\<close>

definition get_argument :: "request \<Rightarrow> string \<Rightarrow> exn + string" where
  "get_argument rq name =
     (case arguments rq name of
        None \<Rightarrow> Inl (MissingArgumentError name)
      | Some vs \<Rightarrow> if vs = [] then Inl (MissingArgumentError name) else Inr (last vs))"

definition get_argument_or :: "request \<Rightarrow> string \<Rightarrow> string \<Rightarrow> string" where
  "get_argument_or rq name d = (case get_argument rq name of Inl e \<Rightarrow> d | Inr v \<Rightarrow> v)"

definition get_argument_or_None :: "request \<Rightarrow> string \<Rightarrow> string option" where
  "get_argument_or_None rq name = (case get_argument rq name of Inl e \<Rightarrow> None | Inr v \<Rightarrow> Some v)"

definition get_signed_cookie :: "request \<Rightarrow> string \<Rightarrow> string option" where
  "get_signed_cookie rq name = signed_cookies rq name"

definition full_url :: "request \<Rightarrow> string" where
  "full_url rq = protocol rq @ ''://'' @ host rq @ uri rq"

text \<open>\<^verbatim>\<open>s.strip("/")\<close>.\<close>

definition strip_slashes :: "string \<Rightarrow> string" where
  "strip_slashes s =
     rev (dropWhile (\<lambda>c. c = CHR ''/'') (rev (dropWhile (\<lambda>c. c = CHR ''/'') s)))"

text \<open>\<^verbatim>\<open>jupyter_server.utils.url_path_join(a, b)\<close>.\<close>

definition url_path_join :: "string \<Rightarrow> string \<Rightarrow> string" where
  "url_path_join a b =
     (let initial = (a \<noteq> [] \<and> hd a = CHR ''/'');
          final = (b \<noteq> [] \<and> last b = CHR ''/'');
          stripped = filter (\<lambda>s. s \<noteq> []) [strip_slashes a, strip_slashes b];
          joined = (case stripped of [] \<Rightarrow> [] | [x] \<Rightarrow> x | x # y # zs \<Rightarrow> x @ ''/'' @ y);
          r1 = (if initial then ''/'' @ joined else joined);
          r2 = (if final then r1 @ ''/'' else r1)
      in if r2 = ''//'' then ''/'' else r2)"

text \<open>
  \<^verbatim>\<open>urljoin(self.request.full_url(), path)\<close> for an absolute path: the scheme and the
  host of the request, followed by the path (the server's \<^verbatim>\<open>base_url\<close> starts with a
  slash and has no dot segments).
\<close>

definition urljoin :: "request \<Rightarrow> string \<Rightarrow> string" where
  "urljoin rq path = protocol rq @ ''://'' @ host rq @ path"

text \<open>
  The expression both the login and the callback handler use for \<^verbatim>\<open>redirect_uri\<close>:
  \<^verbatim>\<open>settings["smart_redirect_uri"] or urljoin(full_url(), url_path_join(base_url, callback_path))\<close>.
\<close>

definition redirect_uri :: "settings \<Rightarrow> request \<Rightarrow> string" where
  "redirect_uri st rq =
     (if smart_redirect_uri st \<noteq> [] then smart_redirect_uri st
      else urljoin rq (url_path_join (base_url st) callback_path))"

text \<open>
  The decorator \<^verbatim>\<open>@tornado.web.authenticated\<close> on a GET handler: without a current
  user the body does not run and the client is redirected to the login URL (a path of
  the server), with the requested URI as \<^verbatim>\<open>next\<close> unless the login URL has a query.
\<close>

definition authenticated :: "settings \<Rightarrow> request \<Rightarrow> run \<Rightarrow> run" where
  "authenticated st rq r =
     (if current_user rq = None then
        respond st (Redirect
          (if CHR ''?'' \<in> set (login_url st) then login_url st
           else login_url st @ ''?'' @ urlencode [(''next'', uri rq)]))
      else r)"

subsection \<open>The callback handler\<close>

text \<open>
  \<^verbatim>\<open>SMARTCallbackHandler.token_for_code\<close>. The keyword arguments of \<^verbatim>\<open>dict(...)\<close>
  are evaluated in order, so a missing \<^verbatim>\<open>code_verifier\<close> cookie (\<^verbatim>\<open>None.decode\<close>)
  fails before the settings are read for the token URL, and both before any request is
  sent. The cookie holds what the login signed, an ASCII string, so \<^verbatim>\<open>decode\<close> is the
  identity on it. The \<^verbatim>\<open>except\<close> clause logs \<^verbatim>\<open>e.response.body\<close>, which fails
  on an error without a response, and re-raises.
\<close>

definition token_for_code ::
  "env \<Rightarrow> settings \<Rightarrow> request \<Rightarrow> string \<Rightarrow> (exn + json) \<times> http_request list" where
  "token_for_code ev st rq code =
     (case get_signed_cookie rq ''code_verifier'' of
        None \<Rightarrow> (Inl (AttributeError ''decode''), [])
      | Some code_verifier \<Rightarrow>
          let data = [(''client_id'', client_id st),
                      (''grant_type'', ''authorization_code''),
                      (''code'', code),
                      (''code_verifier'', code_verifier),
                      (''redirect_uri'', redirect_uri st rq)];
              hdrs = [(''Content-Type'', ''application/x-www-form-urlencoded'')]
          in (case smart_config st of
                None \<Rightarrow> (Inl (KeyError ''smart_config''), [])
              | Some cfg \<Rightarrow>
                  let req = \<lparr>url = token_url cfg, http_method = ''POST'',
                             headers = hdrs, body = urlencode data\<rparr>
                  in (case fetch ev req of
                        ClientError c None \<Rightarrow> (Inl (AttributeError ''body''), [req])
                      | ClientError c (Some b) \<Rightarrow> (Inl (HTTPClientError c), [req])
                      | Failure m \<Rightarrow> (Inl (OtherError m), [req])
                      | Reply b \<Rightarrow>
                          (case json_loads ev b of
                             None \<Rightarrow> (Inl JSONDecodeError, [req])
                           | Some j \<Rightarrow> (subscript j ''access_token'', [req])))))"

text \<open>The body of \<^verbatim>\<open>SMARTCallbackHandler.get\<close>, lines 167 to 187.\<close>

definition SMARTCallbackHandler_get_body :: "env \<Rightarrow> settings \<Rightarrow> request \<Rightarrow> run" where
  "SMARTCallbackHandler_get_body ev st rq =
     (if arguments rq ''error'' \<noteq> None then
        (case get_argument rq ''error'' of
           Inl e \<Rightarrow> raise st e
         | Inr msg \<Rightarrow> raise st (HTTPError 400 msg))
      else
        (case get_argument rq ''code'' of
           Inl e \<Rightarrow> raise st e
         | Inr code \<Rightarrow>
             if code = [] then
               raise st (HTTPError 400 ''Error: no code in response from FHIR server'')
             else
               (case get_signed_cookie rq ''state_id'' of
                  None \<Rightarrow> raise st (HTTPError 400 ''Error: missing state cookie'')
                | Some stored \<Rightarrow>
                    (case get_argument rq ''state'' of
                       Inl e \<Rightarrow> raise st e
                     | Inr arg_state \<Rightarrow>
                         if arg_state = [] then
                           raise st (HTTPError 400 ''Error: missing state argument'')
                         else if arg_state \<noteq> stored then
                           raise st (HTTPError 400
                             ''Error: state received from FHIR server does not match'')
                         else
                           (case token_for_code ev st rq code of
                              (Inl e, reqs) \<Rightarrow> (raise st e)\<lparr>fetches := reqs\<rparr>
                            | (Inr tok, reqs) \<Rightarrow>
                                let st' = st\<lparr>smart_token := Some tok\<rparr> in
                                (case next_url st' of
                                   None \<Rightarrow> (raise st' (KeyError ''next_url''))\<lparr>fetches := reqs\<rparr>
                                 | Some u \<Rightarrow> (respond st' (Redirect u))\<lparr>fetches := reqs\<rparr>))))))"

text \<open>\<^verbatim>\<open>SMARTCallbackHandler.get\<close> with its decorator.\<close>

definition SMARTCallbackHandler_get :: "env \<Rightarrow> settings \<Rightarrow> request \<Rightarrow> run" where
  "SMARTCallbackHandler_get ev st rq =
     authenticated st rq (SMARTCallbackHandler_get_body ev st rq)"

subsection \<open>Base64\<close>

text \<open>
  \<^verbatim>\<open>base64.b64encode\<close>: three bytes give four characters of the standard alphabet;
  a last group of one or two bytes is padded with \<^verbatim>\<open>=\<close>.
\<close>

definition b64_alphabet :: string where
  "b64_alphabet = ''ABCDEFGHIJKLMNOPQRSTUVWXYZabcdefghijklmnopqrstuvwxyz0123456789+/''"

definition b64_char :: "nat \<Rightarrow> char" where
  "b64_char n = b64_alphabet ! (n mod 64)"

fun b64encode :: "string \<Rightarrow> string" where
  "b64encode (a # b # c # r) =
     (let n = of_char a * 65536 + of_char b * 256 + of_char c
      in [b64_char (n div 262144), b64_char (n div 4096), b64_char (n div 64), b64_char n]
         @ b64encode r)"
| "b64encode [a, b] =
     (let n = of_char a * 65536 + of_char b * 256
      in [b64_char (n div 262144), b64_char (n div 4096), b64_char (n div 64), CHR ''=''])"
| "b64encode [a] =
     (let n = of_char a * 65536
      in [b64_char (n div 262144), b64_char (n div 4096), CHR ''='', CHR ''=''])"
| "b64encode [] = []"

text \<open>\<^verbatim>\<open>base64.urlsafe_b64encode\<close>: the standard encoding with \<^verbatim>\<open>+/\<close> translated to \<^verbatim>\<open>-_\<close>.\<close>

definition urlsafe_b64encode :: "string \<Rightarrow> string" where
  "urlsafe_b64encode s =
     map (\<lambda>c. if c = CHR ''+'' then CHR ''-'' else if c = CHR ''/'' then CHR ''_'' else c)
       (b64encode s)"

text \<open>\<^verbatim>\<open>s.rstrip(b"=")\<close>.\<close>

definition rstrip_eq :: "string \<Rightarrow> string" where
  "rstrip_eq s = rev (dropWhile (\<lambda>c. c = CHR ''='') (rev s))"

subsection \<open>The login handler\<close>

text \<open>
  The body of \<^verbatim>\<open>SMARTLoginHandler.get\<close>, lines 107 to 133. The cookies set before a
  \<^verbatim>\<open>KeyError\<close> stay in the run. The dictionary \<^verbatim>\<open>headers\<close> keeps its insertion
  order; \<^verbatim>\<open>urlencode\<close> applies \<^verbatim>\<open>str\<close> to the value under \<^verbatim>\<open>launch\<close>, which is
  whatever the launch handler stored.
\<close>

definition SMARTLoginHandler_get_body :: "env \<Rightarrow> settings \<Rightarrow> request \<Rightarrow> run" where
  "SMARTLoginHandler_get_body ev st rq =
     (let state = generate_state ev;
          cookies1 = [(''state_id'', state_id state)];
          cookies2 = (case state_next_url state of
                        None \<Rightarrow> cookies1
                      | Some n \<Rightarrow> if n = [] then cookies1 else cookies1 @ [(''next_url'', n)])
      in case smart_config st of
           None \<Rightarrow> (raise st (KeyError ''smart_config''))\<lparr>new_cookies := cookies2\<rparr>
         | Some cfg \<Rightarrow>
             let code_verifier = token_urlsafe ev 53;
                 cookies3 = cookies2 @ [(''code_verifier'', code_verifier)];
                 code_challenge_b = sha256 ev code_verifier;
                 code_challenge = rstrip_eq (urlsafe_b64encode code_challenge_b)
             in (case launch st of
                   None \<Rightarrow> (raise st (KeyError ''launch''))\<lparr>new_cookies := cookies3\<rparr>
                 | Some l \<Rightarrow>
                     let hdrs = [(''aud'', fhir_url cfg),
                                 (''state'', state_id state),
                                 (''launch'', py_str l),
                                 (''redirect_uri'', redirect_uri st rq),
                                 (''client_id'', client_id st),
                                 (''code_challenge'', code_challenge),
                                 (''code_challenge_method'', ''S256''),
                                 (''response_type'', ''code''),
                                 (''scope'', str_join '' '' (scopes st))]
                     in (respond st (Redirect (auth_url cfg @ ''?'' @ urlencode hdrs)))
                          \<lparr>new_cookies := cookies3\<rparr>))"

definition SMARTLoginHandler_get :: "env \<Rightarrow> settings \<Rightarrow> request \<Rightarrow> run" where
  "SMARTLoginHandler_get ev st rq =
     authenticated st rq (SMARTLoginHandler_get_body ev st rq)"

text \<open>The cookies the login handler has set, in order, once the verifier is drawn (lines 108 to 116).\<close>

definition login_cookies :: "env \<Rightarrow> (string \<times> string) list" where
  "login_cookies ev =
     [(''state_id'', state_id (generate_state ev))] @
     (case state_next_url (generate_state ev) of
        None \<Rightarrow> []
      | Some n \<Rightarrow> if n = [] then [] else [(''next_url'', n)]) @
     [(''code_verifier'', token_urlsafe ev 53)]"

subsection \<open>The launch handler\<close>

text \<open>
  Modelled from the spec: the address of the issuer's configuration document, "the
  issuer's well-known SMART configuration resource relative to fhirBaseUrl" of section
  4.1, at the path SMART App Launch gives it.
\<close>

definition configuration_url :: "string \<Rightarrow> string" where
  "configuration_url fhir = fhir @ ''/.well-known/smart-configuration''"

text \<open>
  Modelled from the spec: \<^verbatim>\<open>SMARTConfig.from_url\<close> of
  \<^verbatim>\<open>jupyter_smart_on_fhir/auth.py\<close>, which is not among the sources. By section 4.1
  the base URL is validated as a well-formed absolute URL before any network call, and
  discovery then makes one outbound GET for the issuer's configuration document; by
  section 8 a malformed issuer is answered with status 400. Which strings are well-formed
  absolute URLs and what the fetch returns are inputs of the run.
\<close>

definition SMARTConfig_from_url ::
  "env \<Rightarrow> string \<Rightarrow> string \<Rightarrow> (exn + SMARTConfig) \<times> http_request list" where
  "SMARTConfig_from_url ev fhir request_url =
     (if \<not> well_formed_absolute_url ev fhir then
        (Inl (HTTPError 400 ''malformed issuer URL''), [])
      else
        (fetch_configuration ev fhir,
         [\<lparr>url = configuration_url fhir, http_method = ''GET'', headers = [], body = []\<rparr>]))"

text \<open>
  The body of \<^verbatim>\<open>SMARTAuthHandler.get\<close>, lines 82 to 99. \<^verbatim>\<open>os.environ[k] = v\<close>
  accepts only a string, and none with a null byte.
\<close>

definition SMARTAuthHandler_get_body :: "env \<Rightarrow> settings \<Rightarrow> request \<Rightarrow> run" where
  "SMARTAuthHandler_get_body ev st rq =
     (let fhir = get_argument_or rq ''iss'' (smart_default_issuer st)
      in if fhir = [] then raise st (HTTPError 400 ''issuer (?iss=...) required'')
         else
           (case SMARTConfig_from_url ev fhir (full_url rq) of
              (Inl e, reqs) \<Rightarrow> (raise st e)\<lparr>fetches := reqs\<rparr>
            | (Inr cfg, reqs) \<Rightarrow>
                let launch_url = get_argument_or_None rq ''launch'';
                    st1 = st\<lparr>launch := Some launch_url\<rparr>;
                    st2 = st1\<lparr>smart_config := Some cfg\<rparr>
                in (case smart_token st2 of
                      None \<Rightarrow>
                        (respond (st2\<lparr>next_url := Some (uri rq)\<rparr>)
                           (Redirect (url_path_join (base_url st2) login_path)))
                          \<lparr>fetches := reqs\<rparr>
                    | Some token \<Rightarrow>
                        if \<not> truthy token then
                          (respond (st2\<lparr>next_url := Some (uri rq)\<rparr>)
                             (Redirect (url_path_join (base_url st2) login_path)))
                            \<lparr>fetches := reqs\<rparr>
                        else
                          (case token of
                             JStr s \<Rightarrow>
                               if CHR 0x00 \<in> set s then
                                 (raise st2 (ValueError ''embedded null byte''))
                                   \<lparr>fetches := reqs\<rparr>
                               else
                                 (respond st2
                                    (Write ''text/plain''
                                       ''Authorization success: Token persisted in $SMART_TOKEN''))
                                   \<lparr>fetches := reqs, environ := [(''SMART_TOKEN'', s)]\<rparr>
                           | _ \<Rightarrow> (raise st2 (TypeError ''str expected''))\<lparr>fetches := reqs\<rparr>))))"

definition SMARTAuthHandler_get :: "env \<Rightarrow> settings \<Rightarrow> request \<Rightarrow> run" where
  "SMARTAuthHandler_get ev st rq =
     authenticated st rq (SMARTAuthHandler_get_body ev st rq)"

subsection \<open>The browser\<close>

text \<open>
  The browser keeps the signed cookies a response sets and sends them back unchanged
  with its next request to the server.
\<close>

definition browser_store ::
  "(string \<Rightarrow> string option) \<Rightarrow> (string \<times> string) list \<Rightarrow> string \<Rightarrow> string option" where
  "browser_store jar cs = fold (\<lambda>(k, v) j. j(k \<mapsto> v)) cs jar"

subsection \<open>The settings a server can reach\<close>

text \<open>
  A server starts without the four keys the handlers write; from then on the settings
  change only through runs of the three handlers, on whatever requests and with whatever
  answers from outside.
\<close>

inductive reachable :: "settings \<Rightarrow> bool" where
  fresh: "launch st = None \<Longrightarrow> smart_config st = None \<Longrightarrow> smart_token st = None \<Longrightarrow>
          next_url st = None \<Longrightarrow> reachable st"
| launched: "reachable st \<Longrightarrow> reachable (settings_after (SMARTAuthHandler_get ev st rq))"
| logged_in: "reachable st \<Longrightarrow> reachable (settings_after (SMARTLoginHandler_get ev st rq))"
| called_back: "reachable st \<Longrightarrow> reachable (settings_after (SMARTCallbackHandler_get ev st rq))"

text \<open>Where a configuration or a token is stored, a \<^verbatim>\<open>next_url\<close> is stored too.\<close>

definition next_url_known :: "settings \<Rightarrow> bool" where
  "next_url_known st \<longleftrightarrow>
     (smart_config st = None \<and> smart_token st = None) \<or> next_url st \<noteq> None"

section \<open>The specification's callback state machine\<close>

text \<open>
  Section 4.4 of the specification, in its own words: the five failing transitions out
  of \<open>VALIDATING\<close>, in the order they are listed, each with the failure it ends in; the
  first transition whose guard holds is taken, and \<open>EXCHANGING\<close> is entered when none
  does. The guards read four facts about the callback.
\<close>

datatype failure = IssuerError | ProtocolError | SessionExpired | StateMismatch | TokenExchangeError

datatype guard =
    ErrorParamPresent
  | CodeMissing
  | StoredStateMissing
  | StateParamMissing
  | StateParamDiffers

datatype phase = FAILED guard failure | EXCHANGING

record callback_view =
  error_present :: bool
  code_param :: "string option"
  stored_state :: "string option"
  state_param :: "string option"

fun holds :: "callback_view \<Rightarrow> guard \<Rightarrow> bool" where
  "holds v ErrorParamPresent = error_present v"
| "holds v CodeMissing = (code_param v = None)"
| "holds v StoredStateMissing = (stored_state v = None)"
| "holds v StateParamMissing = (state_param v = None)"
| "holds v StateParamDiffers = (state_param v \<noteq> stored_state v)"

definition transitions :: "(guard \<times> failure) list" where
  "transitions =
     [(ErrorParamPresent, IssuerError),
      (CodeMissing, ProtocolError),
      (StoredStateMissing, SessionExpired),
      (StateParamMissing, ProtocolError),
      (StateParamDiffers, StateMismatch)]"

definition VALIDATING :: "callback_view \<Rightarrow> phase" where
  "VALIDATING v =
     (case find (\<lambda>(g, f). holds v g) transitions of
        Some (g, f) \<Rightarrow> FAILED g f
      | None \<Rightarrow> EXCHANGING)"

text \<open>
  The four facts as the handler reads them from a request: a parameter that is absent or
  empty is missing.
\<close>

definition present_argument :: "request \<Rightarrow> string \<Rightarrow> string option" where
  "present_argument rq name =
     (case get_argument rq name of Inl e \<Rightarrow> None | Inr v \<Rightarrow> if v = [] then None else Some v)"

definition view_of :: "request \<Rightarrow> callback_view" where
  "view_of rq =
     \<lparr>error_present = (arguments rq ''error'' \<noteq> None),
      code_param = present_argument rq ''code'',
      stored_state = get_signed_cookie rq ''state_id'',
      state_param = present_argument rq ''state''\<rparr>"

text \<open>The exception the handler's source raises at each of the five checks.\<close>

fun raised_at :: "request \<Rightarrow> guard \<Rightarrow> exn" where
  "raised_at rq ErrorParamPresent =
     (case get_argument rq ''error'' of Inl e \<Rightarrow> e | Inr msg \<Rightarrow> HTTPError 400 msg)"
| "raised_at rq CodeMissing =
     (case get_argument rq ''code'' of
        Inl e \<Rightarrow> e
      | Inr c \<Rightarrow> HTTPError 400 ''Error: no code in response from FHIR server'')"
| "raised_at rq StoredStateMissing = HTTPError 400 ''Error: missing state cookie''"
| "raised_at rq StateParamMissing =
     (case get_argument rq ''state'' of
        Inl e \<Rightarrow> e
      | Inr s \<Rightarrow> HTTPError 400 ''Error: missing state argument'')"
| "raised_at rq StateParamDiffers =
     HTTPError 400 ''Error: state received from FHIR server does not match''"

text \<open>
  The encoding the specification names \<open>base64url_no_pad\<close>: groups of three bytes as
  four characters of the URL-safe alphabet, a last group of one or two bytes as two or
  three characters, and no padding.
\<close>

definition b64url_alphabet :: string where
  "b64url_alphabet = ''ABCDEFGHIJKLMNOPQRSTUVWXYZabcdefghijklmnopqrstuvwxyz0123456789-_''"

definition b64url_char :: "nat \<Rightarrow> char" where
  "b64url_char n = b64url_alphabet ! (n mod 64)"

fun base64url_no_pad :: "string \<Rightarrow> string" where
  "base64url_no_pad (a # b # c # r) =
     (let n = of_char a * 65536 + of_char b * 256 + of_char c
      in [b64url_char (n div 262144), b64url_char (n div 4096), b64url_char (n div 64),
          b64url_char n] @ base64url_no_pad r)"
| "base64url_no_pad [a, b] =
     (let n = of_char a * 65536 + of_char b * 256
      in [b64url_char (n div 262144), b64url_char (n div 4096), b64url_char (n div 64)])"
| "base64url_no_pad [a] =
     (let n = of_char a * 65536
      in [b64url_char (n div 262144), b64url_char (n div 4096)])"
| "base64url_no_pad [] = []"

text \<open>
  The token exchange request of section 4.4: a POST to the token endpoint with the form
  content type, whose body holds the client identifier, the grant type, the code, the
  code verifier and the redirect URI.
\<close>

definition token_request ::
  "settings \<Rightarrow> request \<Rightarrow> SMARTConfig \<Rightarrow> string \<Rightarrow> string \<Rightarrow> http_request" where
  "token_request st rq cfg code cv =
     \<lparr>url = token_url cfg, http_method = ''POST'',
      headers = [(''Content-Type'', ''application/x-www-form-urlencoded'')],
      body = urlencode [(''client_id'', client_id st),
                        (''grant_type'', ''authorization_code''),
                        (''code'', code),
                        (''code_verifier'', cv),
                        (''redirect_uri'', redirect_uri st rq)]\<rparr>"

section \<open>A concrete flow\<close>

text \<open>
  The end-to-end scenario of the specification's section 8: the issuer
  \<^verbatim>\<open>https://ehr.example.org/fhir\<close> with its two endpoints, the stored state
  \<^verbatim>\<open>abc123\<close> and the token \<^verbatim>\<open>tok_abc\<close>. The code verifier and its SHA-256 digest
  are those of RFC 7636, appendix B.
\<close>

definition ehr_config :: SMARTConfig where
  "ehr_config =
     \<lparr>fhir_url = ''https://ehr.example.org/fhir'',
      auth_url = ''https://ehr.example.org/auth/authorize'',
      token_url = ''https://ehr.example.org/auth/token''\<rparr>"

definition rfc7636_verifier :: string where
  "rfc7636_verifier = ''dBjftJeZ4CVP-mB92K27uhbUJU1p1r_wW1gFWFOEjXk''"

definition rfc7636_digest :: string where
  "rfc7636_digest =
     map char_of
       [19, 211, 30, 150, 26, 26, 216, 236, 47, 22, 177, 12, 76, 152, 46, 8, 118, 168, 120,
        173, 109, 241, 68, 86, 110, 225, 137, 74, 203, 112, 249, 195 :: nat]"

definition demo_env :: env where
  "demo_env =
     \<lparr>generate_state = \<lparr>state_id = ''abc123'', state_next_url = None\<rparr>,
      token_urlsafe = (\<lambda>n. rfc7636_verifier),
      sha256 = (\<lambda>s. if s = rfc7636_verifier then rfc7636_digest else []),
      fetch = (\<lambda>r. Reply ''token reply''),
      json_loads = (\<lambda>b. Some (JObj [(''access_token'', JStr ''tok_abc'')])),
      well_formed_absolute_url = (\<lambda>u. take 8 u = ''https://''),
      fetch_configuration = (\<lambda>u. Inr ehr_config)\<rparr>"

text \<open>The settings of a fresh server, and the settings after a launch without a launch hint.\<close>

definition fresh_settings :: settings where
  "fresh_settings =
     \<lparr>scopes = [''openid'', ''profile'', ''fhirUser'', ''launch'', ''patient/*.*''],
      client_id = ''jupyter'',
      smart_redirect_uri = [],
      smart_default_issuer = [],
      smart_default_launch_url = [],
      base_url = ''/'',
      login_url = ''/login'',
      launch = None,
      smart_config = None,
      smart_token = None,
      next_url = None\<rparr>"

definition demo_settings :: settings where
  "demo_settings =
     fresh_settings
       \<lparr>launch := Some None,
        smart_config := Some ehr_config,
        next_url := Some ''/smart?iss=https%3A%2F%2Fehr.example.org%2Ffhir''\<rparr>"

definition demo_launch :: request where
  "demo_launch =
     \<lparr>protocol = ''http'',
      host = ''localhost:8888'',
      uri = ''/smart?iss=https%3A%2F%2Fehr.example.org%2Ffhir'',
      arguments = [''iss'' \<mapsto> [''https://ehr.example.org/fhir'']],
      signed_cookies = Map.empty,
      current_user = Some ''user''\<rparr>"

definition demo_login :: request where
  "demo_login =
     \<lparr>protocol = ''http'',
      host = ''localhost:8888'',
      uri = ''/smart/login'',
      arguments = Map.empty,
      signed_cookies = Map.empty,
      current_user = Some ''user''\<rparr>"

definition demo_callback :: request where
  "demo_callback =
     \<lparr>protocol = ''http'',
      host = ''localhost:8888'',
      uri = ''/smart/oauth_callback?code=c0de&state=abc123'',
      arguments = [''code'' \<mapsto> [''c0de''], ''state'' \<mapsto> [''abc123'']],
      signed_cookies = [''state_id'' \<mapsto> ''abc123'', ''code_verifier'' \<mapsto> rfc7636_verifier],
      current_user = Some ''user''\<rparr>"

text \<open>The two failing callbacks of section 8: a state that differs, and no code.\<close>

definition mismatch_callback :: request where
  "mismatch_callback =
     demo_callback\<lparr>arguments := [''code'' \<mapsto> [''c0de''], ''state'' \<mapsto> [''xyz987'']]\<rparr>"

definition missing_code_callback :: request where
  "missing_code_callback = demo_callback\<lparr>arguments := [''state'' \<mapsto> [''abc123'']]\<rparr>"

text \<open>
  A token endpoint that rejects the code, settings that already hold a token, a callback
  that also carries a \<^verbatim>\<open>next_url\<close> cookie, and the callback arriving under
  another host name of the same server.
\<close>

definition rejecting_env :: env where
  "rejecting_env = demo_env\<lparr>fetch := (\<lambda>r. ClientError 400 (Some ''invalid_grant''))\<rparr>"

definition logged_in_settings :: settings where
  "logged_in_settings = demo_settings\<lparr>smart_token := Some (JStr ''tok_old'')\<rparr>"

definition lab_cookie_callback :: request where
  "lab_cookie_callback =
     demo_callback\<lparr>signed_cookies := (signed_cookies demo_callback)(''next_url'' \<mapsto> ''/lab'')\<rparr>"

definition other_host_callback :: request where
  "other_host_callback = demo_callback\<lparr>host := ''127.0.0.1:8888''\<rparr>"

text \<open>A login whose flow state names \<^verbatim>\<open>/lab\<close> as the URL to return to.\<close>

definition lab_env :: env where
  "lab_env = demo_env\<lparr>generate_state := \<lparr>state_id = ''abc123'', state_next_url = Some ''/lab''\<rparr>\<rparr>"

text \<open>The launch of section 8 with a malformed issuer.\<close>

definition malformed_launch :: request where
  "malformed_launch = demo_launch\<lparr>arguments := [''iss'' \<mapsto> [''not a url'']]\<rparr>"

section \<open>Lemmas about the handlers\<close>

subsection \<open>Runs and the decorator\<close>

lemma run_simps:
  "outcome (raise st e) = Inl e" "fetches (raise st e) = []" "settings_after (raise st e) = st"
  "new_cookies (raise st e) = []" "environ (raise st e) = []"
  "outcome (respond st r) = Inr r" "fetches (respond st r) = []"
  "settings_after (respond st r) = st" "new_cookies (respond st r) = []"
  "environ (respond st r) = []"
  by (simp_all add: raise_def respond_def)

lemma authenticated_user: "current_user rq \<noteq> None \<Longrightarrow> authenticated st rq r = r"
  by (cases "current_user rq") (simp_all add: authenticated_def)

lemma authenticated_anonymous:
  "current_user rq = None \<Longrightarrow> \<exists>u. authenticated st rq r = respond st (Redirect u)"
  by (auto simp: authenticated_def)

subsection \<open>The callback handler\<close>

lemma VALIDATING_unfold:
  "VALIDATING v =
     (if error_present v then FAILED ErrorParamPresent IssuerError
      else if code_param v = None then FAILED CodeMissing ProtocolError
      else if stored_state v = None then FAILED StoredStateMissing SessionExpired
      else if state_param v = None then FAILED StateParamMissing ProtocolError
      else if state_param v \<noteq> stored_state v then FAILED StateParamDiffers StateMismatch
      else EXCHANGING)"
  by (simp add: VALIDATING_def transitions_def)

lemma view_of_simps:
  "error_present (view_of rq) = (arguments rq ''error'' \<noteq> None)"
  "code_param (view_of rq) = present_argument rq ''code''"
  "stored_state (view_of rq) = signed_cookies rq ''state_id''"
  "state_param (view_of rq) = present_argument rq ''state''"
  by (simp_all add: view_of_def get_signed_cookie_def)

lemma present_argument_None:
  "present_argument rq n = None \<longleftrightarrow>
     (\<exists>e. get_argument rq n = Inl e) \<or> get_argument rq n = Inr []"
  by (cases "get_argument rq n") (simp_all add: present_argument_def)

lemma present_argument_Some:
  "present_argument rq n = Some v \<longleftrightarrow> get_argument rq n = Inr v \<and> v \<noteq> []"
  by (cases "get_argument rq n") (auto simp: present_argument_def)

lemma callback_body_failed:
  assumes "VALIDATING (view_of rq) = FAILED g f"
  shows "SMARTCallbackHandler_get_body ev st rq = raise st (raised_at rq g)"
proof (cases "arguments rq ''error''")
  case (Some vs)
  with assms have "g = ErrorParamPresent"
    by (simp add: VALIDATING_unfold view_of_simps)
  with Some show ?thesis
    by (simp add: SMARTCallbackHandler_get_body_def split: sum.split)
next
  case noerr: None
  show ?thesis
  proof (cases "present_argument rq ''code''")
    case None
    with assms noerr have g: "g = CodeMissing"
      by (simp add: VALIDATING_unfold view_of_simps)
    from None show ?thesis
      unfolding present_argument_None g
      by (auto simp: SMARTCallbackHandler_get_body_def noerr)
  next
    case (Some code)
    then have code: "get_argument rq ''code'' = Inr code" "code \<noteq> []"
      by (simp_all add: present_argument_Some)
    show ?thesis
    proof (cases "signed_cookies rq ''state_id''")
      case None
      with assms noerr Some have g: "g = StoredStateMissing"
        by (simp add: VALIDATING_unfold view_of_simps)
      show ?thesis
        by (simp add: SMARTCallbackHandler_get_body_def noerr code None g get_signed_cookie_def)
    next
      case stored: (Some sid)
      show ?thesis
      proof (cases "present_argument rq ''state''")
        case None
        with assms noerr Some stored have g: "g = StateParamMissing"
          by (simp add: VALIDATING_unfold view_of_simps)
        from None show ?thesis
          unfolding present_argument_None g
          by (auto simp: SMARTCallbackHandler_get_body_def noerr code stored get_signed_cookie_def)
      next
        case arg: (Some a)
        then have a: "get_argument rq ''state'' = Inr a" "a \<noteq> []"
          by (simp_all add: present_argument_Some)
        from assms noerr Some stored arg have g: "g = StateParamDiffers" and ne: "a \<noteq> sid"
          by (simp_all add: VALIDATING_unfold view_of_simps split: if_splits)
        show ?thesis
          by (simp add: SMARTCallbackHandler_get_body_def noerr code stored a g ne
              get_signed_cookie_def)
      qed
    qed
  qed
qed

lemma callback_body_exchanging:
  assumes "VALIDATING (view_of rq) = EXCHANGING"
  shows "\<exists>code. code_param (view_of rq) = Some code \<and>
           SMARTCallbackHandler_get_body ev st rq =
             (case token_for_code ev st rq code of
                (Inl e, reqs) \<Rightarrow> (raise st e)\<lparr>fetches := reqs\<rparr>
              | (Inr tok, reqs) \<Rightarrow>
                  (case next_url st of
                     None \<Rightarrow>
                       (raise (st\<lparr>smart_token := Some tok\<rparr>) (KeyError ''next_url''))
                         \<lparr>fetches := reqs\<rparr>
                   | Some u \<Rightarrow>
                       (respond (st\<lparr>smart_token := Some tok\<rparr>) (Redirect u))
                         \<lparr>fetches := reqs\<rparr>))"
proof -
  from assms have noerr: "arguments rq ''error'' = None"
    by (simp add: VALIDATING_unfold view_of_simps split: if_splits)
  from assms obtain code where c: "present_argument rq ''code'' = Some code"
    by (auto simp: VALIDATING_unfold view_of_simps split: if_splits)
  from assms obtain sid where s: "signed_cookies rq ''state_id'' = Some sid"
    by (auto simp: VALIDATING_unfold view_of_simps split: if_splits)
  from assms s have a: "present_argument rq ''state'' = Some sid"
    by (auto simp: VALIDATING_unfold view_of_simps split: if_splits)
  from c have code: "get_argument rq ''code'' = Inr code" "code \<noteq> []"
    by (simp_all add: present_argument_Some)
  from a have arg: "get_argument rq ''state'' = Inr sid" "sid \<noteq> []"
    by (simp_all add: present_argument_Some)
  have "SMARTCallbackHandler_get_body ev st rq =
             (case token_for_code ev st rq code of
                (Inl e, reqs) \<Rightarrow> (raise st e)\<lparr>fetches := reqs\<rparr>
              | (Inr tok, reqs) \<Rightarrow>
                  (case next_url st of
                     None \<Rightarrow>
                       (raise (st\<lparr>smart_token := Some tok\<rparr>) (KeyError ''next_url''))
                         \<lparr>fetches := reqs\<rparr>
                   | Some u \<Rightarrow>
                       (respond (st\<lparr>smart_token := Some tok\<rparr>) (Redirect u))
                         \<lparr>fetches := reqs\<rparr>))"
    by (simp add: SMARTCallbackHandler_get_body_def noerr code s arg get_signed_cookie_def
        Let_def split: prod.split sum.split)
  with c show ?thesis
    by (simp add: view_of_simps)
qed

lemma raised_at_status: "status_code (Inl (raised_at rq g)) = 400"
  by (cases g) (auto simp: get_argument_def split: sum.splits option.splits if_splits)

lemma subscript_status: "subscript j k = Inl e \<Longrightarrow> status_code (Inl e) = 500"
  by (cases j) (auto split: option.splits)

lemma token_for_code_no_cookie:
  "signed_cookies rq ''code_verifier'' = None \<Longrightarrow>
   token_for_code ev st rq code = (Inl (AttributeError ''decode''), [])"
  by (simp add: token_for_code_def get_signed_cookie_def)

lemma token_for_code_no_config:
  "signed_cookies rq ''code_verifier'' = Some cv \<Longrightarrow> smart_config st = None \<Longrightarrow>
   token_for_code ev st rq code = (Inl (KeyError ''smart_config''), [])"
  by (simp add: token_for_code_def get_signed_cookie_def)

lemma token_for_code_sent:
  "signed_cookies rq ''code_verifier'' = Some cv \<Longrightarrow> smart_config st = Some cfg \<Longrightarrow>
   token_for_code ev st rq code =
     (case fetch ev (token_request st rq cfg code cv) of
        ClientError c None \<Rightarrow> Inl (AttributeError ''body'')
      | ClientError c (Some b) \<Rightarrow> Inl (HTTPClientError c)
      | Failure m \<Rightarrow> Inl (OtherError m)
      | Reply b \<Rightarrow>
          (case json_loads ev b of
             None \<Rightarrow> Inl JSONDecodeError
           | Some j \<Rightarrow> subscript j ''access_token''),
      [token_request st rq cfg code cv])"
  by (simp add: token_for_code_def get_signed_cookie_def token_request_def Let_def
      split: fetch_result.split option.split)

lemma token_for_code_status:
  assumes "fst (token_for_code ev st rq code) = Inl e"
  shows "status_code (Inl e) = 500"
proof (cases "signed_cookies rq ''code_verifier''")
  case None
  with assms show ?thesis by (auto simp: token_for_code_no_cookie)
next
  case cv: (Some cv)
  show ?thesis
  proof (cases "smart_config st")
    case None
    with assms cv show ?thesis by (auto simp: token_for_code_no_config)
  next
    case (Some cfg)
    with assms cv show ?thesis
      by (auto simp: token_for_code_sent split: fetch_result.splits option.splits
          dest: subscript_status)
  qed
qed

lemma callback_body_exchanging_run:
  assumes "VALIDATING (view_of rq) = EXCHANGING"
  shows "\<exists>code. code_param (view_of rq) = Some code \<and>
           fetches (SMARTCallbackHandler_get_body ev st rq) =
             snd (token_for_code ev st rq code) \<and>
           new_cookies (SMARTCallbackHandler_get_body ev st rq) = [] \<and>
           (case fst (token_for_code ev st rq code) of
              Inl e \<Rightarrow>
                outcome (SMARTCallbackHandler_get_body ev st rq) = Inl e \<and>
                settings_after (SMARTCallbackHandler_get_body ev st rq) = st
            | Inr tok \<Rightarrow>
                settings_after (SMARTCallbackHandler_get_body ev st rq) =
                  st\<lparr>smart_token := Some tok\<rparr> \<and>
                outcome (SMARTCallbackHandler_get_body ev st rq) =
                  (case next_url st of
                     None \<Rightarrow> Inl (KeyError ''next_url'')
                   | Some u \<Rightarrow> Inr (Redirect u)))"
proof -
  from callback_body_exchanging [OF assms, of ev st]
  obtain code where c: "code_param (view_of rq) = Some code"
    and b: "SMARTCallbackHandler_get_body ev st rq =
             (case token_for_code ev st rq code of
                (Inl e, reqs) \<Rightarrow> (raise st e)\<lparr>fetches := reqs\<rparr>
              | (Inr tok, reqs) \<Rightarrow>
                  (case next_url st of
                     None \<Rightarrow>
                       (raise (st\<lparr>smart_token := Some tok\<rparr>) (KeyError ''next_url''))
                         \<lparr>fetches := reqs\<rparr>
                   | Some u \<Rightarrow>
                       (respond (st\<lparr>smart_token := Some tok\<rparr>) (Redirect u))
                         \<lparr>fetches := reqs\<rparr>))"
    by blast
  obtain res reqs where t: "token_for_code ev st rq code = (res, reqs)"
    by (cases "token_for_code ev st rq code")
  have "fetches (SMARTCallbackHandler_get_body ev st rq) = reqs"
    unfolding b t by (cases res; cases "next_url st") (simp_all add: run_simps)
  moreover have "new_cookies (SMARTCallbackHandler_get_body ev st rq) = []"
    unfolding b t by (cases res; cases "next_url st") (simp_all add: run_simps)
  moreover have "(case res of
              Inl e \<Rightarrow>
                outcome (SMARTCallbackHandler_get_body ev st rq) = Inl e \<and>
                settings_after (SMARTCallbackHandler_get_body ev st rq) = st
            | Inr tok \<Rightarrow>
                settings_after (SMARTCallbackHandler_get_body ev st rq) =
                  st\<lparr>smart_token := Some tok\<rparr> \<and>
                outcome (SMARTCallbackHandler_get_body ev st rq) =
                  (case next_url st of
                     None \<Rightarrow> Inl (KeyError ''next_url'')
                   | Some u \<Rightarrow> Inr (Redirect u)))"
    unfolding b t by (cases res; cases "next_url st") (simp_all add: run_simps)
  ultimately show ?thesis
    using c t by simp
qed

lemma callback_get_user:
  "current_user rq \<noteq> None \<Longrightarrow>
   SMARTCallbackHandler_get ev st rq = SMARTCallbackHandler_get_body ev st rq"
  by (simp add: SMARTCallbackHandler_get_def authenticated_user)

lemma callback_get_anonymous:
  assumes "current_user rq = None"
  shows "fetches (SMARTCallbackHandler_get ev st rq) = []"
    and "settings_after (SMARTCallbackHandler_get ev st rq) = st"
    and "new_cookies (SMARTCallbackHandler_get ev st rq) = []"
proof -
  from authenticated_anonymous [OF assms, of st "SMARTCallbackHandler_get_body ev st rq"]
  obtain u where "SMARTCallbackHandler_get ev st rq = respond st (Redirect u)"
    unfolding SMARTCallbackHandler_get_def by blast
  then show "fetches (SMARTCallbackHandler_get ev st rq) = []"
    and "settings_after (SMARTCallbackHandler_get ev st rq) = st"
    and "new_cookies (SMARTCallbackHandler_get ev st rq) = []"
    by (simp_all add: run_simps)
qed

lemma callback_get_failed:
  assumes "VALIDATING (view_of rq) = FAILED g f"
  shows "fetches (SMARTCallbackHandler_get ev st rq) = []"
    and "settings_after (SMARTCallbackHandler_get ev st rq) = st"
    and "new_cookies (SMARTCallbackHandler_get ev st rq) = []"
proof -
  have "fetches (SMARTCallbackHandler_get ev st rq) = [] \<and>
        settings_after (SMARTCallbackHandler_get ev st rq) = st \<and>
        new_cookies (SMARTCallbackHandler_get ev st rq) = []"
  proof (cases "current_user rq")
    case None
    then show ?thesis by (simp add: callback_get_anonymous)
  next
    case (Some u)
    then show ?thesis
      by (simp add: callback_get_user callback_body_failed [OF assms] run_simps)
  qed
  then show "fetches (SMARTCallbackHandler_get ev st rq) = []"
    and "settings_after (SMARTCallbackHandler_get ev st rq) = st"
    and "new_cookies (SMARTCallbackHandler_get ev st rq) = []"
    by simp_all
qed

lemma callback_get_new_cookies: "new_cookies (SMARTCallbackHandler_get ev st rq) = []"
proof (cases "current_user rq")
  case None
  then show ?thesis by (rule callback_get_anonymous)
next
  case (Some u)
  show ?thesis
  proof (cases "VALIDATING (view_of rq)")
    case (FAILED g f)
    then show ?thesis by (rule callback_get_failed)
  next
    case EXCHANGING
    from callback_body_exchanging_run [OF EXCHANGING, of ev st] Some show ?thesis
      by (auto simp: callback_get_user)
  qed
qed

lemma VALIDATING_code_missing:
  "arguments rq ''error'' = None \<Longrightarrow> present_argument rq ''code'' = None \<Longrightarrow>
   VALIDATING (view_of rq) = FAILED CodeMissing ProtocolError"
  by (simp add: VALIDATING_unfold view_of_simps)

lemma VALIDATING_state_differs:
  "arguments rq ''error'' = None \<Longrightarrow> present_argument rq ''code'' = Some c \<Longrightarrow>
   signed_cookies rq ''state_id'' = Some sid \<Longrightarrow> present_argument rq ''state'' = Some a \<Longrightarrow>
   a \<noteq> sid \<Longrightarrow>
   VALIDATING (view_of rq) = FAILED StateParamDiffers StateMismatch"
  by (simp add: VALIDATING_unfold view_of_simps)

lemma callback_get_exchanging:
  assumes "current_user rq \<noteq> None" and "VALIDATING (view_of rq) = EXCHANGING"
  shows "\<exists>code. code_param (view_of rq) = Some code \<and>
           fetches (SMARTCallbackHandler_get ev st rq) = snd (token_for_code ev st rq code) \<and>
           (case fst (token_for_code ev st rq code) of
              Inl e \<Rightarrow>
                outcome (SMARTCallbackHandler_get ev st rq) = Inl e \<and>
                settings_after (SMARTCallbackHandler_get ev st rq) = st
            | Inr tok \<Rightarrow>
                settings_after (SMARTCallbackHandler_get ev st rq) =
                  st\<lparr>smart_token := Some tok\<rparr> \<and>
                outcome (SMARTCallbackHandler_get ev st rq) =
                  (case next_url st of
                     None \<Rightarrow> Inl (KeyError ''next_url'')
                   | Some u \<Rightarrow> Inr (Redirect u)))"
  using callback_body_exchanging_run [OF assms(2), of ev st]
  unfolding callback_get_user [OF assms(1)] by blast

lemma callback_get_responds:
  assumes "current_user rq \<noteq> None"
    and "outcome (SMARTCallbackHandler_get ev st rq) = Inr resp"
  shows "\<exists>u. next_url st = Some u \<and> resp = Redirect u"
proof (cases "VALIDATING (view_of rq)")
  case (FAILED g f)
  with assms show ?thesis
    by (simp add: callback_get_user callback_body_failed [OF FAILED] run_simps)
next
  case EXCHANGING
  from callback_get_exchanging [OF assms(1) EXCHANGING, of ev st]
  obtain code where o: "(case fst (token_for_code ev st rq code) of
              Inl e \<Rightarrow>
                outcome (SMARTCallbackHandler_get ev st rq) = Inl e \<and>
                settings_after (SMARTCallbackHandler_get ev st rq) = st
            | Inr tok \<Rightarrow>
                settings_after (SMARTCallbackHandler_get ev st rq) =
                  st\<lparr>smart_token := Some tok\<rparr> \<and>
                outcome (SMARTCallbackHandler_get ev st rq) =
                  (case next_url st of
                     None \<Rightarrow> Inl (KeyError ''next_url'')
                   | Some u \<Rightarrow> Inr (Redirect u)))"
    by blast
  show ?thesis
    using o assms(2)
    by (cases "fst (token_for_code ev st rq code)"; cases "next_url st") simp_all
qed

lemma next_url_cookie_primitives:
  "get_argument (rq\<lparr>signed_cookies := c\<rparr>) n = get_argument rq n"
  "get_signed_cookie (rq\<lparr>signed_cookies := (signed_cookies rq)(''next_url'' := v)\<rparr>) ''state_id''
     = get_signed_cookie rq ''state_id''"
  "get_signed_cookie (rq\<lparr>signed_cookies := (signed_cookies rq)(''next_url'' := v)\<rparr>)
     ''code_verifier'' = get_signed_cookie rq ''code_verifier''"
  "redirect_uri st (rq\<lparr>signed_cookies := c\<rparr>) = redirect_uri st rq"
  by (simp_all add: get_argument_def get_signed_cookie_def redirect_uri_def urljoin_def)

lemma token_for_code_next_url_cookie:
  "token_for_code ev st (rq\<lparr>signed_cookies := (signed_cookies rq)(''next_url'' := v)\<rparr>) code
     = token_for_code ev st rq code"
  unfolding token_for_code_def next_url_cookie_primitives ..

lemma callback_body_next_url_cookie:
  "SMARTCallbackHandler_get_body ev st (rq\<lparr>signed_cookies := (signed_cookies rq)(''next_url'' := v)\<rparr>)
     = SMARTCallbackHandler_get_body ev st rq"
  unfolding SMARTCallbackHandler_get_body_def next_url_cookie_primitives
    token_for_code_next_url_cookie
  by simp

lemma callback_get_next_url_cookie:
  "SMARTCallbackHandler_get ev st (rq\<lparr>signed_cookies := (signed_cookies rq)(''next_url'' := v)\<rparr>)
     = SMARTCallbackHandler_get ev st rq"
  by (simp add: SMARTCallbackHandler_get_def callback_body_next_url_cookie authenticated_def)

lemma replay_same_request:
  "rq\<lparr>signed_cookies :=
        browser_store (signed_cookies rq) (new_cookies (SMARTCallbackHandler_get ev st rq))\<rparr> = rq"
  by (simp add: callback_get_new_cookies browser_store_def)

lemma redirect_uri_reproduced:
  "smart_redirect_uri st \<noteq> [] \<or> (protocol rq = protocol rq' \<and> host rq = host rq') \<Longrightarrow>
   redirect_uri st rq = redirect_uri st rq'"
  by (auto simp: redirect_uri_def urljoin_def)

lemma callback_get_sends:
  assumes "current_user rq \<noteq> None" and "VALIDATING (view_of rq) = EXCHANGING"
    and "signed_cookies rq ''code_verifier'' = Some cv" and "smart_config st = Some cfg"
  shows "\<exists>code. code_param (view_of rq) = Some code \<and>
           fetches (SMARTCallbackHandler_get ev st rq) = [token_request st rq cfg code cv]"
  using callback_get_exchanging [OF assms(1,2), of ev st]
  by (auto simp: token_for_code_sent [OF assms(3,4)])

lemma token_for_code_needs_config:
  "fst (token_for_code ev st rq code) = Inr tok \<Longrightarrow> smart_config st \<noteq> None"
  by (cases "signed_cookies rq ''code_verifier''"; cases "smart_config st")
     (simp_all add: token_for_code_no_cookie token_for_code_no_config)

lemma callback_settings_after:
  "settings_after (SMARTCallbackHandler_get ev st rq) = st \<or>
   (\<exists>tok. smart_config st \<noteq> None \<and>
      settings_after (SMARTCallbackHandler_get ev st rq) = st\<lparr>smart_token := Some tok\<rparr>)"
proof (cases "current_user rq")
  case None
  then show ?thesis by (simp add: callback_get_anonymous)
next
  case (Some usr)
  then have u: "current_user rq \<noteq> None" by simp
  show ?thesis
  proof (cases "VALIDATING (view_of rq)")
    case (FAILED g f)
    then show ?thesis by (simp add: callback_get_failed [OF FAILED])
  next
    case EXCHANGING
    from callback_get_exchanging [OF u EXCHANGING, of ev st]
    obtain code where o: "(case fst (token_for_code ev st rq code) of
              Inl e \<Rightarrow>
                outcome (SMARTCallbackHandler_get ev st rq) = Inl e \<and>
                settings_after (SMARTCallbackHandler_get ev st rq) = st
            | Inr tok \<Rightarrow>
                settings_after (SMARTCallbackHandler_get ev st rq) =
                  st\<lparr>smart_token := Some tok\<rparr> \<and>
                outcome (SMARTCallbackHandler_get ev st rq) =
                  (case next_url st of
                     None \<Rightarrow> Inl (KeyError ''next_url'')
                   | Some u \<Rightarrow> Inr (Redirect u)))"
      by blast
    show ?thesis
    proof (cases "fst (token_for_code ev st rq code)")
      case (Inl e)
      with o show ?thesis by simp
    next
      case (Inr tok)
      with o token_for_code_needs_config [OF Inr] show ?thesis by auto
    qed
  qed
qed

subsection \<open>Base64 and URL encoding\<close>

lemma b64url_alphabet_translated:
  "map (\<lambda>c. if c = CHR ''+'' then CHR ''-'' else if c = CHR ''/'' then CHR ''_'' else c)
     b64_alphabet = b64url_alphabet"
  by (simp add: b64_alphabet_def b64url_alphabet_def)

lemma alphabet_lengths: "length b64_alphabet = 64" "length b64url_alphabet = 64"
  by (simp_all add: b64_alphabet_def b64url_alphabet_def)

lemma b64url_char_translated:
  "(if b64_char n = CHR ''+'' then CHR ''-''
    else if b64_char n = CHR ''/'' then CHR ''_'' else b64_char n) = b64url_char n"
proof -
  have "n mod 64 < length b64_alphabet"
    by (simp add: alphabet_lengths)
  then have "map (\<lambda>c. if c = CHR ''+'' then CHR ''-'' else if c = CHR ''/'' then CHR ''_'' else c)
     b64_alphabet ! (n mod 64) =
    (\<lambda>c. if c = CHR ''+'' then CHR ''-'' else if c = CHR ''/'' then CHR ''_'' else c)
      (b64_alphabet ! (n mod 64))"
    by (rule nth_map)
  then show ?thesis
    by (simp add: b64url_alphabet_translated b64_char_def b64url_char_def)
qed

lemma b64url_char_in_alphabet: "b64url_char n \<in> set b64url_alphabet"
  unfolding b64url_char_def by (rule nth_mem) (simp add: alphabet_lengths)

lemma b64url_alphabet_safe: "c \<in> set b64url_alphabet \<Longrightarrow> always_safe c"
  by (auto simp: b64url_alphabet_def always_safe_def)

lemma b64url_alphabet_no_padding: "CHR ''='' \<notin> set b64url_alphabet"
  by (simp add: b64url_alphabet_def)

lemma base64url_no_pad_alphabet: "set (base64url_no_pad bs) \<subseteq> set b64url_alphabet"
  by (induction bs rule: base64url_no_pad.induct)
     (simp_all add: Let_def b64url_char_in_alphabet)

lemma urlsafe_b64encode_padding:
  "\<exists>k. urlsafe_b64encode bs = base64url_no_pad bs @ replicate k (CHR ''='')"
proof (induction bs rule: base64url_no_pad.induct)
  case (1 a b c r)
  then obtain k where
    "urlsafe_b64encode r = base64url_no_pad r @ replicate k (CHR ''='')" by blast
  then have "urlsafe_b64encode (a # b # c # r) =
      base64url_no_pad (a # b # c # r) @ replicate k (CHR ''='')"
    by (simp add: urlsafe_b64encode_def Let_def b64url_char_translated)
  then show ?case by blast
next
  case (2 a b)
  have "urlsafe_b64encode [a, b] = base64url_no_pad [a, b] @ replicate 1 (CHR ''='')"
    by (simp add: urlsafe_b64encode_def Let_def b64url_char_translated)
  then show ?case by blast
next
  case (3 a)
  have "urlsafe_b64encode [a] = base64url_no_pad [a] @ replicate 2 (CHR ''='')"
    by (simp add: urlsafe_b64encode_def Let_def b64url_char_translated numeral_2_eq_2)
  then show ?case by blast
next
  case 4
  have "urlsafe_b64encode [] = base64url_no_pad [] @ replicate 0 (CHR ''='')"
    by (simp add: urlsafe_b64encode_def)
  then show ?case by blast
qed

lemma rstrip_eq_padding:
  assumes "CHR ''='' \<notin> set xs"
  shows "rstrip_eq (xs @ replicate k (CHR ''='')) = xs"
proof -
  have "dropWhile (\<lambda>c. c = CHR ''='') (replicate k (CHR ''='') @ rev xs) =
        dropWhile (\<lambda>c. c = CHR ''='') (rev xs)"
    by (rule dropWhile_append2) simp
  moreover have "dropWhile (\<lambda>c. c = CHR ''='') (rev xs) = rev xs"
    using assms by (cases "rev xs") (auto simp: dropWhile_eq_self_iff)
  ultimately show ?thesis
    by (simp add: rstrip_eq_def)
qed

lemma code_challenge_is_base64url_no_pad:
  "rstrip_eq (urlsafe_b64encode bs) = base64url_no_pad bs"
proof -
  obtain k where "urlsafe_b64encode bs = base64url_no_pad bs @ replicate k (CHR ''='')"
    using urlsafe_b64encode_padding by blast
  moreover have "CHR ''='' \<notin> set (base64url_no_pad bs)"
    using base64url_no_pad_alphabet [of bs] b64url_alphabet_no_padding by blast
  ultimately show ?thesis
    by (simp add: rstrip_eq_padding)
qed

lemma quote_plus_safe:
  "(\<And>c. c \<in> set s \<Longrightarrow> always_safe c) \<Longrightarrow> quote_plus s = s"
  by (induction s) (simp_all add: quote_plus_def quote_char_def)

lemma quote_plus_base64url_no_pad: "quote_plus (base64url_no_pad bs) = base64url_no_pad bs"
  using base64url_no_pad_alphabet [of bs]
  by (intro quote_plus_safe b64url_alphabet_safe) blast

lemma str_join_append:
  "xs \<noteq> [] \<Longrightarrow> ys \<noteq> [] \<Longrightarrow> str_join sep (xs @ ys) = str_join sep xs @ sep @ str_join sep ys"
  by (induction sep xs rule: str_join.induct) (auto simp: neq_Nil_conv)

lemma urlencode_append:
  "xs \<noteq> [] \<Longrightarrow> ys \<noteq> [] \<Longrightarrow> urlencode (xs @ ys) = urlencode xs @ ''&'' @ urlencode ys"
  by (simp add: urlencode_def str_join_append)

lemma urlencode_single: "urlencode [(k, v)] = quote_plus k @ ''='' @ quote_plus v"
  by (simp add: urlencode_def)

lemma quote_plus_names:
  "quote_plus ''code_challenge'' = ''code_challenge''"
  "quote_plus ''code_challenge_method'' = ''code_challenge_method''"
  "quote_plus ''S256'' = ''S256''"
  by (simp_all add: quote_plus_def quote_char_def always_safe_def)

subsection \<open>The login handler\<close>

lemma login_get_user:
  "current_user rq \<noteq> None \<Longrightarrow>
   SMARTLoginHandler_get ev st rq = SMARTLoginHandler_get_body ev st rq"
  by (simp add: SMARTLoginHandler_get_def authenticated_user)

lemma login_body_redirects:
  assumes "smart_config st = Some cfg" and "launch st = Some l"
  shows "outcome (SMARTLoginHandler_get_body ev st rq) =
           Inr (Redirect (auth_url cfg @ ''?'' @ urlencode
             [(''aud'', fhir_url cfg),
              (''state'', state_id (generate_state ev)),
              (''launch'', py_str l),
              (''redirect_uri'', redirect_uri st rq),
              (''client_id'', client_id st),
              (''code_challenge'', base64url_no_pad (sha256 ev (token_urlsafe ev 53))),
              (''code_challenge_method'', ''S256''),
              (''response_type'', ''code''),
              (''scope'', str_join '' '' (scopes st))]))"
    and "new_cookies (SMARTLoginHandler_get_body ev st rq) = login_cookies ev"
    and "settings_after (SMARTLoginHandler_get_body ev st rq) = st"
    and "fetches (SMARTLoginHandler_get_body ev st rq) = []"
  using assms
  by (simp_all add: SMARTLoginHandler_get_body_def Let_def run_simps login_cookies_def
      code_challenge_is_base64url_no_pad split: option.split)

lemma login_query_split:
  "urlencode (p1 # p2 # p3 # p4 # p5 # (''code_challenge'', base64url_no_pad d) #
      (''code_challenge_method'', ''S256'') # q1 # qs) =
   urlencode [p1, p2, p3, p4, p5] @ ''&code_challenge='' @ base64url_no_pad d @
     ''&code_challenge_method=S256&'' @ urlencode (q1 # qs)"
proof -
  have "urlencode ([p1, p2, p3, p4, p5] @
          ([(''code_challenge'', base64url_no_pad d)] @
           ([(''code_challenge_method'', ''S256'')] @ (q1 # qs)))) =
        urlencode [p1, p2, p3, p4, p5] @ ''&'' @
          (urlencode [(''code_challenge'', base64url_no_pad d)] @ ''&'' @
            (urlencode [(''code_challenge_method'', ''S256'')] @ ''&'' @ urlencode (q1 # qs)))"
    by (simp only: urlencode_append not_Cons_self2 append_is_Nil_conv simp_thms list.distinct)
  then show ?thesis
    by (simp add: urlencode_single quote_plus_names quote_plus_base64url_no_pad)
qed

lemma browser_store_last: "browser_store jar (cs @ [(k, v)]) k = Some v"
  by (simp add: browser_store_def)

lemma browser_store_login_verifier:
  "browser_store jar (login_cookies ev) ''code_verifier'' = Some (token_urlsafe ev 53)"
  unfolding login_cookies_def append_assoc [symmetric] by (rule browser_store_last)

lemma login_settings_after: "settings_after (SMARTLoginHandler_get ev st rq) = st"
proof (cases "current_user rq")
  case None
  then show ?thesis
    by (simp add: SMARTLoginHandler_get_def authenticated_def run_simps)
next
  case (Some u)
  then show ?thesis
    by (simp add: SMARTLoginHandler_get_def authenticated_user SMARTLoginHandler_get_body_def
        Let_def run_simps split: option.split)
qed

subsection \<open>The launch handler\<close>

lemma launch_get_user:
  "current_user rq \<noteq> None \<Longrightarrow>
   SMARTAuthHandler_get ev st rq = SMARTAuthHandler_get_body ev st rq"
  by (simp add: SMARTAuthHandler_get_def authenticated_user)

lemma launch_redirect_stores_uri:
  assumes "current_user rq \<noteq> None"
    and "outcome (SMARTAuthHandler_get ev st rq) = Inr (Redirect l)"
  shows "next_url (settings_after (SMARTAuthHandler_get ev st rq)) = Some (uri rq)"
proof -
  have g: "SMARTAuthHandler_get ev st rq = SMARTAuthHandler_get_body ev st rq"
    using assms(1) by (simp add: SMARTAuthHandler_get_def authenticated_user)
  obtain res reqs where f:
    "SMARTConfig_from_url ev (get_argument_or rq ''iss'' (smart_default_issuer st)) (full_url rq)
       = (res, reqs)"
    by (cases "SMARTConfig_from_url ev (get_argument_or rq ''iss'' (smart_default_issuer st))
          (full_url rq)")
  show ?thesis
    using assms(2) unfolding g
    by (cases res; cases "smart_token st")
       (auto simp: SMARTAuthHandler_get_body_def Let_def f run_simps
          split: if_splits json.splits)
qed

lemma launch_settings_after:
  "settings_after (SMARTAuthHandler_get ev st rq) = st \<or>
   (\<exists>l c. settings_after (SMARTAuthHandler_get ev st rq) =
      st\<lparr>launch := l, smart_config := c, next_url := Some (uri rq)\<rparr>) \<or>
   (\<exists>l c. smart_token st \<noteq> None \<and>
      settings_after (SMARTAuthHandler_get ev st rq) = st\<lparr>launch := l, smart_config := c\<rparr>)"
proof (cases "current_user rq")
  case None
  then show ?thesis
    by (simp add: SMARTAuthHandler_get_def authenticated_def run_simps)
next
  case (Some u)
  then have g: "SMARTAuthHandler_get ev st rq = SMARTAuthHandler_get_body ev st rq"
    by (simp add: SMARTAuthHandler_get_def authenticated_user)
  obtain res reqs where f:
    "SMARTConfig_from_url ev (get_argument_or rq ''iss'' (smart_default_issuer st)) (full_url rq)
       = (res, reqs)"
    by (cases "SMARTConfig_from_url ev (get_argument_or rq ''iss'' (smart_default_issuer st))
          (full_url rq)")
  show ?thesis
    unfolding g
    by (cases res; cases "smart_token st")
       (auto simp: SMARTAuthHandler_get_body_def Let_def f run_simps split: json.splits)
qed

subsection \<open>Reachable settings\<close>

lemma reachable_next_url_known: "reachable st \<Longrightarrow> next_url_known st"
proof (induction rule: reachable.induct)
  case (fresh st)
  then show ?case by (simp add: next_url_known_def)
next
  case (launched st ev rq)
  from launch_settings_after [of ev st rq] launched.IH show ?case
    by (auto simp: next_url_known_def)
next
  case (logged_in st ev rq)
  then show ?case by (simp add: login_settings_after)
next
  case (called_back st ev rq)
  from callback_settings_after [of ev st rq] called_back.IH show ?case
    by (auto simp: next_url_known_def)
qed

lemma failed_callback_reachable:
  assumes "reachable st" and "outcome (SMARTCallbackHandler_get ev st rq) = Inl e"
  shows "settings_after (SMARTCallbackHandler_get ev st rq) = st"
proof (cases "current_user rq")
  case None
  then show ?thesis by (simp add: callback_get_anonymous)
next
  case (Some usr)
  then have u: "current_user rq \<noteq> None" by simp
  show ?thesis
  proof (cases "VALIDATING (view_of rq)")
    case (FAILED g f)
    then show ?thesis by (simp add: callback_get_failed [OF FAILED])
  next
    case EXCHANGING
    from callback_get_exchanging [OF u EXCHANGING, of ev st]
    obtain code where o: "(case fst (token_for_code ev st rq code) of
              Inl e \<Rightarrow>
                outcome (SMARTCallbackHandler_get ev st rq) = Inl e \<and>
                settings_after (SMARTCallbackHandler_get ev st rq) = st
            | Inr tok \<Rightarrow>
                settings_after (SMARTCallbackHandler_get ev st rq) =
                  st\<lparr>smart_token := Some tok\<rparr> \<and>
                outcome (SMARTCallbackHandler_get ev st rq) =
                  (case next_url st of
                     None \<Rightarrow> Inl (KeyError ''next_url'')
                   | Some u \<Rightarrow> Inr (Redirect u)))"
      by blast
    show ?thesis
    proof (cases "fst (token_for_code ev st rq code)")
      case (Inl e)
      with o show ?thesis by simp
    next
      case (Inr tok)
      from token_for_code_needs_config [OF Inr] reachable_next_url_known [OF assms(1)]
      obtain n where "next_url st = Some n"
        by (auto simp: next_url_known_def)
      with o Inr assms(2) show ?thesis by simp
    qed
  qed
qed

section \<open>The concrete flow, evaluated\<close>

lemma demo_callback_facts:
  "current_user demo_callback \<noteq> None"
  "code_param (view_of demo_callback) = Some ''c0de''"
  "signed_cookies demo_callback ''code_verifier'' = Some rfc7636_verifier"
  by (simp_all add: view_of_simps present_argument_def get_argument_def demo_callback_def)

lemma demo_settings_facts:
  "smart_config demo_settings = Some ehr_config"
  "next_url demo_settings = Some ''/smart?iss=https%3A%2F%2Fehr.example.org%2Ffhir''"
  "smart_token demo_settings = None"
  "smart_config logged_in_settings = Some ehr_config"
  "next_url logged_in_settings = Some ''/smart?iss=https%3A%2F%2Fehr.example.org%2Ffhir''"
  "smart_token logged_in_settings = Some (JStr ''tok_old'')"
  by (simp_all add: demo_settings_def logged_in_settings_def fresh_settings_def)

lemma demo_env_facts:
  "generate_state demo_env = \<lparr>state_id = ''abc123'', state_next_url = None\<rparr>"
  "token_urlsafe demo_env n = rfc7636_verifier"
  "sha256 demo_env rfc7636_verifier = rfc7636_digest"
  by (simp_all add: demo_env_def)

lemma demo_login_facts:
  "current_user demo_login \<noteq> None"
  "redirect_uri demo_settings demo_login = ''http://localhost:8888/smart/oauth_callback''"
  "launch demo_settings = Some None"
  "client_id demo_settings = ''jupyter''"
  "scopes demo_settings = [''openid'', ''profile'', ''fhirUser'', ''launch'', ''patient/*.*'']"
  by (simp_all add: redirect_uri_def urljoin_def url_path_join_def strip_slashes_def
      callback_path_def demo_settings_def fresh_settings_def demo_login_def)

lemma ehr_config_facts:
  "fhir_url ehr_config = ''https://ehr.example.org/fhir''"
  "auth_url ehr_config = ''https://ehr.example.org/auth/authorize''"
  "token_url ehr_config = ''https://ehr.example.org/auth/token''"
  by (simp_all add: ehr_config_def)

lemma demo_callback_view: "VALIDATING (view_of demo_callback) = EXCHANGING"
  by (simp add: VALIDATING_unfold view_of_simps present_argument_def get_argument_def
      demo_callback_def)

lemma mismatch_callback_view:
  "VALIDATING (view_of mismatch_callback) = FAILED StateParamDiffers StateMismatch"
  by (simp add: VALIDATING_unfold view_of_simps present_argument_def get_argument_def
      demo_callback_def mismatch_callback_def)

lemma missing_code_callback_view:
  "VALIDATING (view_of missing_code_callback) = FAILED CodeMissing ProtocolError"
  by (simp add: VALIDATING_unfold view_of_simps present_argument_def get_argument_def
      demo_callback_def missing_code_callback_def)

lemma other_host_callback_facts:
  "current_user other_host_callback \<noteq> None"
  "VALIDATING (view_of other_host_callback) = EXCHANGING"
  "code_param (view_of other_host_callback) = Some ''c0de''"
  "signed_cookies other_host_callback ''code_verifier'' = Some rfc7636_verifier"
  by (simp_all add: VALIDATING_unfold view_of_simps present_argument_def get_argument_def
      demo_callback_def other_host_callback_def)

lemma demo_token_for_code:
  "token_for_code demo_env demo_settings demo_callback ''c0de'' =
     (Inr (JStr ''tok_abc''),
      [token_request demo_settings demo_callback ehr_config ''c0de'' rfc7636_verifier])"
  by (simp add: token_for_code_sent [where cv = rfc7636_verifier and cfg = ehr_config]
      demo_callback_def demo_settings_def fresh_settings_def demo_env_def)

lemma demo_env_token_for_code:
  "smart_config st = Some cfg \<Longrightarrow>
   token_for_code demo_env st demo_callback code =
     (Inr (JStr ''tok_abc''), [token_request st demo_callback cfg code rfc7636_verifier])"
  by (simp add: token_for_code_sent [where cv = rfc7636_verifier and cfg = cfg]
      demo_callback_facts demo_env_def)

lemma rejecting_env_token_for_code:
  "smart_config st = Some cfg \<Longrightarrow>
   token_for_code rejecting_env st demo_callback code =
     (Inl (HTTPClientError 400), [token_request st demo_callback cfg code rfc7636_verifier])"
  by (simp add: token_for_code_sent [where cv = rfc7636_verifier and cfg = cfg]
      demo_callback_facts rejecting_env_def demo_env_def)

lemma demo_callback_succeeds:
  assumes "smart_config st = Some cfg" and "next_url st = Some u"
  shows "outcome (SMARTCallbackHandler_get demo_env st demo_callback) = Inr (Redirect u)"
    and "settings_after (SMARTCallbackHandler_get demo_env st demo_callback) =
           st\<lparr>smart_token := Some (JStr ''tok_abc'')\<rparr>"
    and "fetches (SMARTCallbackHandler_get demo_env st demo_callback) =
           [token_request st demo_callback cfg ''c0de'' rfc7636_verifier]"
  using callback_get_exchanging [OF demo_callback_facts(1) demo_callback_view, of demo_env st]
  by (simp_all add: demo_callback_facts demo_env_token_for_code [OF assms(1)] assms(2))

lemma demo_callback_rejected:
  assumes "smart_config st = Some cfg"
  shows "outcome (SMARTCallbackHandler_get rejecting_env st demo_callback) =
           Inl (HTTPClientError 400)"
    and "settings_after (SMARTCallbackHandler_get rejecting_env st demo_callback) = st"
    and "fetches (SMARTCallbackHandler_get rejecting_env st demo_callback) =
           [token_request st demo_callback cfg ''c0de'' rfc7636_verifier]"
  using callback_get_exchanging [OF demo_callback_facts(1) demo_callback_view,
      of rejecting_env st]
  by (simp_all add: demo_callback_facts rejecting_env_token_for_code [OF assms(1)])

lemma demo_settings_after_callback:
  "smart_config (demo_settings\<lparr>smart_token := t\<rparr>) = Some ehr_config"
  "next_url (demo_settings\<lparr>smart_token := t\<rparr>) =
     Some ''/smart?iss=https%3A%2F%2Fehr.example.org%2Ffhir''"
  by (simp_all add: demo_settings_def fresh_settings_def)

lemma demo_launch_run:
  "outcome (SMARTAuthHandler_get demo_env fresh_settings demo_launch) =
     Inr (Redirect ''/smart/login'')"
  "settings_after (SMARTAuthHandler_get demo_env fresh_settings demo_launch) = demo_settings"
  "fetches (SMARTAuthHandler_get demo_env fresh_settings demo_launch) =
     [\<lparr>url = ''https://ehr.example.org/fhir/.well-known/smart-configuration'',
       http_method = ''GET'', headers = [], body = []\<rparr>]"
  by (simp_all add: SMARTAuthHandler_get_def SMARTAuthHandler_get_body_def authenticated_def
      SMARTConfig_from_url_def get_argument_or_def get_argument_or_None_def get_argument_def
      configuration_url_def url_path_join_def strip_slashes_def login_path_def run_simps
      demo_launch_def demo_env_def fresh_settings_def demo_settings_def Let_def)

lemma lab_cookie_callback_run:
  "SMARTCallbackHandler_get demo_env demo_settings lab_cookie_callback =
   SMARTCallbackHandler_get demo_env demo_settings demo_callback"
  unfolding lab_cookie_callback_def map_upd_Some_unfold
  by (simp only: fun_upd_def [symmetric] callback_get_next_url_cookie)

lemma rfc7636_challenge:
  "base64url_no_pad rfc7636_digest = ''E9Melhoa2OwvFrEMTJguCHaoeK1t8URWbuGJSstw-cM''"
  by (simp add: rfc7636_digest_def Let_def b64url_char_def b64url_alphabet_def)

lemma demo_query_prefix:
  "urlencode [(''aud'', ''https://ehr.example.org/fhir''), (''state'', ''abc123''),
      (''launch'', ''None''),
      (''redirect_uri'', ''http://localhost:8888/smart/oauth_callback''),
      (''client_id'', ''jupyter'')] =
   ''aud=https%3A%2F%2Fehr.example.org%2Ffhir&state=abc123&launch=None&redirect_uri=http%3A%2F%2Flocalhost%3A8888%2Fsmart%2Foauth_callback&client_id=jupyter''"
  by (simp add: urlencode_def quote_plus_def quote_char_def always_safe_def hex_digit_def)

lemma demo_query_suffix:
  "urlencode [(''response_type'', ''code''),
      (''scope'', ''openid profile fhirUser launch patient/*.*'')] =
   ''response_type=code&scope=openid+profile+fhirUser+launch+patient%2F%2A.%2A''"
  by (simp add: urlencode_def quote_plus_def quote_char_def always_safe_def hex_digit_def)

lemma demo_login_url:
  "auth_url ehr_config @ ''?'' @
     urlencode [(''aud'', fhir_url ehr_config),
                (''state'', state_id (generate_state demo_env)),
                (''launch'', py_str None),
                (''redirect_uri'', redirect_uri demo_settings demo_login),
                (''client_id'', client_id demo_settings)] @
     ''&code_challenge='' @ base64url_no_pad (sha256 demo_env (token_urlsafe demo_env 53)) @
     ''&code_challenge_method=S256&'' @
     urlencode [(''response_type'', ''code''),
                (''scope'', str_join '' '' (scopes demo_settings))] =
   ''https://ehr.example.org/auth/authorize?aud=https%3A%2F%2Fehr.example.org%2Ffhir&state=abc123&launch=None&redirect_uri=http%3A%2F%2Flocalhost%3A8888%2Fsmart%2Foauth_callback&client_id=jupyter&code_challenge=E9Melhoa2OwvFrEMTJguCHaoeK1t8URWbuGJSstw-cM&code_challenge_method=S256&response_type=code&scope=openid+profile+fhirUser+launch+patient%2F%2A.%2A''"
  by (simp add: demo_login_facts demo_env_facts ehr_config_facts
      demo_query_prefix demo_query_suffix rfc7636_challenge)

lemma demo_login_run:
  "outcome (SMARTLoginHandler_get demo_env demo_settings demo_login) = Inr (Redirect ''https://ehr.example.org/auth/authorize?aud=https%3A%2F%2Fehr.example.org%2Ffhir&state=abc123&launch=None&redirect_uri=http%3A%2F%2Flocalhost%3A8888%2Fsmart%2Foauth_callback&client_id=jupyter&code_challenge=E9Melhoa2OwvFrEMTJguCHaoeK1t8URWbuGJSstw-cM&code_challenge_method=S256&response_type=code&scope=openid+profile+fhirUser+launch+patient%2F%2A.%2A'')"
  "new_cookies (SMARTLoginHandler_get demo_env demo_settings demo_login) =
     [(''state_id'', ''abc123''), (''code_verifier'', rfc7636_verifier)]"
proof -
  show "outcome (SMARTLoginHandler_get demo_env demo_settings demo_login) = Inr (Redirect ''https://ehr.example.org/auth/authorize?aud=https%3A%2F%2Fehr.example.org%2Ffhir&state=abc123&launch=None&redirect_uri=http%3A%2F%2Flocalhost%3A8888%2Fsmart%2Foauth_callback&client_id=jupyter&code_challenge=E9Melhoa2OwvFrEMTJguCHaoeK1t8URWbuGJSstw-cM&code_challenge_method=S256&response_type=code&scope=openid+profile+fhirUser+launch+patient%2F%2A.%2A'')"
    unfolding login_get_user [OF demo_login_facts(1)]
      login_body_redirects [OF demo_settings_facts(1) demo_login_facts(3)]
      login_query_split demo_login_url ..
  show "new_cookies (SMARTLoginHandler_get demo_env demo_settings demo_login) =
     [(''state_id'', ''abc123''), (''code_verifier'', rfc7636_verifier)]"
    by (simp add: login_get_user [OF demo_login_facts(1)]
        login_body_redirects [OF demo_settings_facts(1) demo_login_facts(3)]
        login_cookies_def demo_env_facts)
qed

lemma demo_cookies_from_login:
  "signed_cookies demo_callback =
     browser_store Map.empty (new_cookies (SMARTLoginHandler_get demo_env demo_settings demo_login))"
  "signed_cookies other_host_callback =
     browser_store Map.empty (new_cookies (SMARTLoginHandler_get demo_env demo_settings demo_login))"
  by (simp_all add: demo_login_run browser_store_def demo_callback_def other_host_callback_def)

lemma demo_token_body:
  "urlencode [(''client_id'', ''jupyter''), (''grant_type'', ''authorization_code''),
      (''code'', ''c0de''), (''code_verifier'', ''dBjftJeZ4CVP-mB92K27uhbUJU1p1r_wW1gFWFOEjXk''),
      (''redirect_uri'', ''http://localhost:8888/smart/oauth_callback'')] =
   ''client_id=jupyter&grant_type=authorization_code&code=c0de&code_verifier=dBjftJeZ4CVP-mB92K27uhbUJU1p1r_wW1gFWFOEjXk&redirect_uri=http%3A%2F%2Flocalhost%3A8888%2Fsmart%2Foauth_callback''"
  "urlencode [(''client_id'', ''jupyter''), (''grant_type'', ''authorization_code''),
      (''code'', ''c0de''), (''code_verifier'', ''dBjftJeZ4CVP-mB92K27uhbUJU1p1r_wW1gFWFOEjXk''),
      (''redirect_uri'', ''http://127.0.0.1:8888/smart/oauth_callback'')] =
   ''client_id=jupyter&grant_type=authorization_code&code=c0de&code_verifier=dBjftJeZ4CVP-mB92K27uhbUJU1p1r_wW1gFWFOEjXk&redirect_uri=http%3A%2F%2F127.0.0.1%3A8888%2Fsmart%2Foauth_callback''"
  by (simp_all add: urlencode_def quote_plus_def quote_char_def always_safe_def hex_digit_def)

lemma demo_callback_origin:
  "protocol demo_callback = protocol demo_login" "host demo_callback = host demo_login"
  "redirect_uri demo_settings demo_callback = ''http://localhost:8888/smart/oauth_callback''"
  "redirect_uri demo_settings other_host_callback = ''http://127.0.0.1:8888/smart/oauth_callback''"
  by (simp_all add: redirect_uri_def urljoin_def url_path_join_def strip_slashes_def
      callback_path_def demo_settings_def fresh_settings_def demo_login_def demo_callback_def
      other_host_callback_def)

lemma demo_settings_reachable: "reachable fresh_settings" "reachable demo_settings"
proof -
  show f: "reachable fresh_settings"
    by (rule reachable.fresh) (simp_all add: fresh_settings_def)
  from reachable.launched [OF f, of demo_env demo_launch]
  show "reachable demo_settings"
    by (simp add: demo_launch_run)
qed

lemma lab_cookies_from_login:
  "signed_cookies lab_cookie_callback =
     browser_store Map.empty (new_cookies (SMARTLoginHandler_get lab_env demo_settings demo_login))"
proof -
  have "new_cookies (SMARTLoginHandler_get lab_env demo_settings demo_login) =
          [(''state_id'', ''abc123''), (''next_url'', ''/lab''),
           (''code_verifier'', rfc7636_verifier)]"
    by (simp add: login_get_user [OF demo_login_facts(1)]
        login_body_redirects [OF demo_settings_facts(1) demo_login_facts(3)]
        login_cookies_def lab_env_def demo_env_def)
  then show ?thesis
    by (auto simp: browser_store_def lab_cookie_callback_def demo_callback_def fun_eq_iff)
qed

section \<open>Properties of the flow\<close>

subsection \<open>Callback validation\<close>

text \<open>
  C1. For a callback request of an authenticated user the handler takes the five checks in
  the order of the specification's state machine: an error parameter, a missing code, a
  missing state cookie, a missing state parameter, a state that differs from the stored
  one. It ends with the exception of the first check that fails, which is answered with
  status 400, and it goes on to the token exchange, and sends a request, only when all five
  pass.
\<close>

theorem callback_validation_order:
  assumes "current_user rq \<noteq> None"
  shows "(case VALIDATING (view_of rq) of
            FAILED g f \<Rightarrow>
              SMARTCallbackHandler_get ev st rq = raise st (raised_at rq g) \<and>
              status_code (Inl (raised_at rq g)) = 400
          | EXCHANGING \<Rightarrow>
              (\<exists>code. code_param (view_of rq) = Some code \<and>
                 fetches (SMARTCallbackHandler_get ev st rq) =
                   snd (token_for_code ev st rq code) \<and>
                 (\<forall>e. fst (token_for_code ev st rq code) = Inl e \<longrightarrow>
                    outcome (SMARTCallbackHandler_get ev st rq) = Inl e) \<and>
                 (\<forall>tok. fst (token_for_code ev st rq code) = Inr tok \<longrightarrow>
                    settings_after (SMARTCallbackHandler_get ev st rq) =
                      st\<lparr>smart_token := Some tok\<rparr>))) \<and>
         (fetches (SMARTCallbackHandler_get ev st rq) \<noteq> [] \<longrightarrow>
            VALIDATING (view_of rq) = EXCHANGING)"
proof -
  have get: "SMARTCallbackHandler_get ev st rq = SMARTCallbackHandler_get_body ev st rq"
    using assms by (simp add: SMARTCallbackHandler_get_def authenticated_user)
  show ?thesis
  proof (cases "VALIDATING (view_of rq)")
    case (FAILED g f)
    have "SMARTCallbackHandler_get ev st rq = raise st (raised_at rq g)"
      unfolding get by (rule callback_body_failed [OF FAILED])
    then show ?thesis
      using FAILED by (simp add: raised_at_status run_simps)
  next
    case EXCHANGING
    from callback_body_exchanging_run [OF EXCHANGING, of ev st]
    obtain code where c: "code_param (view_of rq) = Some code"
      and f: "fetches (SMARTCallbackHandler_get_body ev st rq) =
                snd (token_for_code ev st rq code)"
      and o: "(case fst (token_for_code ev st rq code) of
              Inl e \<Rightarrow>
                outcome (SMARTCallbackHandler_get_body ev st rq) = Inl e \<and>
                settings_after (SMARTCallbackHandler_get_body ev st rq) = st
            | Inr tok \<Rightarrow>
                settings_after (SMARTCallbackHandler_get_body ev st rq) =
                  st\<lparr>smart_token := Some tok\<rparr> \<and>
                outcome (SMARTCallbackHandler_get_body ev st rq) =
                  (case next_url st of
                     None \<Rightarrow> Inl (KeyError ''next_url'')
                   | Some u \<Rightarrow> Inr (Redirect u)))"
      by blast
    have "\<forall>e. fst (token_for_code ev st rq code) = Inl e \<longrightarrow>
            outcome (SMARTCallbackHandler_get ev st rq) = Inl e"
      using o unfolding get by (auto split: sum.splits)
    moreover have "\<forall>tok. fst (token_for_code ev st rq code) = Inr tok \<longrightarrow>
            settings_after (SMARTCallbackHandler_get ev st rq) = st\<lparr>smart_token := Some tok\<rparr>"
      using o unfolding get by (auto split: sum.splits)
    ultimately show ?thesis
      using EXCHANGING c f unfolding get by simp
  qed
qed

theorem callback_validation_order_witness:
  "current_user demo_callback \<noteq> None \<and>
   VALIDATING (view_of demo_callback) = EXCHANGING \<and>
   fetches (SMARTCallbackHandler_get demo_env demo_settings demo_callback) =
     [token_request demo_settings demo_callback ehr_config ''c0de'' rfc7636_verifier] \<and>
   settings_after (SMARTCallbackHandler_get demo_env demo_settings demo_callback) =
     demo_settings\<lparr>smart_token := Some (JStr ''tok_abc'')\<rparr> \<and>
   current_user mismatch_callback \<noteq> None \<and>
   VALIDATING (view_of mismatch_callback) = FAILED StateParamDiffers StateMismatch \<and>
   SMARTCallbackHandler_get demo_env demo_settings mismatch_callback =
     raise demo_settings
       (HTTPError 400 ''Error: state received from FHIR server does not match'')"
proof -
  have u: "current_user demo_callback \<noteq> None" "current_user mismatch_callback \<noteq> None"
    by (simp_all add: demo_callback_def mismatch_callback_def)
  have c: "code_param (view_of demo_callback) = Some ''c0de''"
    by (simp add: view_of_simps present_argument_def get_argument_def demo_callback_def)
  show ?thesis
    using callback_validation_order [OF u(1), of demo_env demo_settings]
      callback_validation_order [OF u(2), of demo_env demo_settings]
    by (simp add: u c demo_callback_view mismatch_callback_view demo_token_for_code)
qed

text \<open>
  C2. A callback whose validation fails ends with the error of the failing check, status
  400, and sends nothing to the token endpoint; a missing code fails as a protocol error
  and a state that differs from the stored one as a state mismatch.
\<close>

theorem failed_validation_sends_nothing:
  "(\<forall>g f. VALIDATING (view_of rq) = FAILED g f \<longrightarrow>
      fetches (SMARTCallbackHandler_get ev st rq) = [] \<and>
      (current_user rq \<noteq> None \<longrightarrow>
         outcome (SMARTCallbackHandler_get ev st rq) = Inl (raised_at rq g) \<and>
         status_code (outcome (SMARTCallbackHandler_get ev st rq)) = 400)) \<and>
   (arguments rq ''error'' = None \<and> present_argument rq ''code'' = None \<longrightarrow>
      VALIDATING (view_of rq) = FAILED CodeMissing ProtocolError) \<and>
   (\<forall>c sid a. arguments rq ''error'' = None \<and> present_argument rq ''code'' = Some c \<and>
      signed_cookies rq ''state_id'' = Some sid \<and> present_argument rq ''state'' = Some a \<and>
      a \<noteq> sid \<longrightarrow>
      VALIDATING (view_of rq) = FAILED StateParamDiffers StateMismatch)"
proof (intro conjI allI impI)
  fix g f
  assume v: "VALIDATING (view_of rq) = FAILED g f"
  show "fetches (SMARTCallbackHandler_get ev st rq) = []"
    by (rule callback_get_failed [OF v])
  assume u: "current_user rq \<noteq> None"
  show "outcome (SMARTCallbackHandler_get ev st rq) = Inl (raised_at rq g)"
    by (simp add: callback_get_user [OF u] callback_body_failed [OF v] run_simps)
  then show "status_code (outcome (SMARTCallbackHandler_get ev st rq)) = 400"
    by (simp add: raised_at_status)
next
  assume "arguments rq ''error'' = None \<and> present_argument rq ''code'' = None"
  then show "VALIDATING (view_of rq) = FAILED CodeMissing ProtocolError"
    by (simp add: VALIDATING_code_missing)
next
  fix c sid a
  assume "arguments rq ''error'' = None \<and> present_argument rq ''code'' = Some c \<and>
      signed_cookies rq ''state_id'' = Some sid \<and> present_argument rq ''state'' = Some a \<and>
      a \<noteq> sid"
  then show "VALIDATING (view_of rq) = FAILED StateParamDiffers StateMismatch"
    by (simp add: VALIDATING_state_differs)
qed

theorem failed_validation_sends_nothing_witness:
  "VALIDATING (view_of mismatch_callback) = FAILED StateParamDiffers StateMismatch \<and>
   fetches (SMARTCallbackHandler_get demo_env demo_settings mismatch_callback) = [] \<and>
   outcome (SMARTCallbackHandler_get demo_env demo_settings mismatch_callback) =
     Inl (HTTPError 400 ''Error: state received from FHIR server does not match'') \<and>
   VALIDATING (view_of missing_code_callback) = FAILED CodeMissing ProtocolError \<and>
   fetches (SMARTCallbackHandler_get demo_env demo_settings missing_code_callback) = [] \<and>
   outcome (SMARTCallbackHandler_get demo_env demo_settings missing_code_callback) =
     Inl (MissingArgumentError ''code'') \<and>
   status_code (outcome (SMARTCallbackHandler_get demo_env demo_settings missing_code_callback))
     = 400"
proof -
  have u: "current_user mismatch_callback \<noteq> None" "current_user missing_code_callback \<noteq> None"
    by (simp_all add: demo_callback_def mismatch_callback_def missing_code_callback_def)
  have r: "get_argument missing_code_callback ''code'' = Inl (MissingArgumentError ''code'')"
    by (simp add: get_argument_def missing_code_callback_def demo_callback_def)
  show ?thesis
    using failed_validation_sends_nothing [of mismatch_callback demo_env demo_settings]
      failed_validation_sends_nothing [of missing_code_callback demo_env demo_settings]
    by (simp add: u r mismatch_callback_view missing_code_callback_view)
qed

subsection \<open>The authorization request\<close>

text \<open>
  C3. The login handler stores the verifier it drew in the \<^verbatim>\<open>code_verifier\<close> cookie,
  and the URL it redirects to carries as \<^verbatim>\<open>code_challenge\<close> the unpadded base64url
  encoding of the SHA-256 digest of that verifier, followed by
  \<^verbatim>\<open>code_challenge_method=S256\<close>.
\<close>

theorem login_code_challenge:
  assumes "current_user rq \<noteq> None" and "smart_config st = Some cfg" and "launch st = Some l"
  shows "outcome (SMARTLoginHandler_get ev st rq) =
           Inr (Redirect (auth_url cfg @ ''?'' @
             urlencode [(''aud'', fhir_url cfg),
                        (''state'', state_id (generate_state ev)),
                        (''launch'', py_str l),
                        (''redirect_uri'', redirect_uri st rq),
                        (''client_id'', client_id st)] @
             ''&code_challenge='' @ base64url_no_pad (sha256 ev (token_urlsafe ev 53)) @
             ''&code_challenge_method=S256&'' @
             urlencode [(''response_type'', ''code''),
                        (''scope'', str_join '' '' (scopes st))])) \<and>
         browser_store jar (new_cookies (SMARTLoginHandler_get ev st rq)) ''code_verifier'' =
           Some (token_urlsafe ev 53) \<and>
         rstrip_eq (urlsafe_b64encode (sha256 ev (token_urlsafe ev 53))) =
           base64url_no_pad (sha256 ev (token_urlsafe ev 53))"
  by (simp add: login_get_user [OF assms(1)] login_body_redirects [OF assms(2,3)]
      login_query_split browser_store_login_verifier code_challenge_is_base64url_no_pad)

theorem login_code_challenge_witness:
  "current_user demo_login \<noteq> None \<and> smart_config demo_settings = Some ehr_config \<and>
   launch demo_settings = Some None \<and>
   outcome (SMARTLoginHandler_get demo_env demo_settings demo_login) = Inr (Redirect ''https://ehr.example.org/auth/authorize?aud=https%3A%2F%2Fehr.example.org%2Ffhir&state=abc123&launch=None&redirect_uri=http%3A%2F%2Flocalhost%3A8888%2Fsmart%2Foauth_callback&client_id=jupyter&code_challenge=E9Melhoa2OwvFrEMTJguCHaoeK1t8URWbuGJSstw-cM&code_challenge_method=S256&response_type=code&scope=openid+profile+fhirUser+launch+patient%2F%2A.%2A'') \<and>
   browser_store Map.empty
     (new_cookies (SMARTLoginHandler_get demo_env demo_settings demo_login)) ''code_verifier'' =
     Some rfc7636_verifier"
  using login_code_challenge [OF demo_login_facts(1) demo_settings_facts(1) demo_login_facts(3),
      of demo_env Map.empty]
  unfolding demo_login_url
  by (simp add: demo_login_facts demo_settings_facts demo_env_facts)

subsection \<open>The token exchange\<close>

text \<open>
  C4, as the code has it. After a login that redirected to the issuer, a callback that
  brings the login's cookies back and passes validation sends exactly one request: a
  POST to the discovered token endpoint, with the form content type, whose body holds the
  client identifier, the grant type, the received code, the verifier the login drew, and
  the redirect URI computed from the callback request by the rule the login used for its
  own request. The two redirect URIs are the same string when a redirect URI is
  configured or when both requests arrived under the same scheme and host.
\<close>

theorem token_exchange_request:
  assumes "current_user login_rq \<noteq> None" and "smart_config st = Some cfg" and "launch st = Some l"
    and "signed_cookies rq = browser_store jar (new_cookies (SMARTLoginHandler_get login_ev st login_rq))"
    and "current_user rq \<noteq> None" and "VALIDATING (view_of rq) = EXCHANGING"
  shows "(\<exists>code. code_param (view_of rq) = Some code \<and>
            fetches (SMARTCallbackHandler_get ev st rq) =
              [\<lparr>url = token_url cfg, http_method = ''POST'',
                headers = [(''Content-Type'', ''application/x-www-form-urlencoded'')],
                body = urlencode [(''client_id'', client_id st),
                                  (''grant_type'', ''authorization_code''),
                                  (''code'', code),
                                  (''code_verifier'', token_urlsafe login_ev 53),
                                  (''redirect_uri'', redirect_uri st rq)]\<rparr>]) \<and>
         outcome (SMARTLoginHandler_get login_ev st login_rq) =
           Inr (Redirect (auth_url cfg @ ''?'' @ urlencode
             [(''aud'', fhir_url cfg),
              (''state'', state_id (generate_state login_ev)),
              (''launch'', py_str l),
              (''redirect_uri'', redirect_uri st login_rq),
              (''client_id'', client_id st),
              (''code_challenge'', base64url_no_pad (sha256 login_ev (token_urlsafe login_ev 53))),
              (''code_challenge_method'', ''S256''),
              (''response_type'', ''code''),
              (''scope'', str_join '' '' (scopes st))])) \<and>
         (smart_redirect_uri st \<noteq> [] \<or> (protocol rq = protocol login_rq \<and> host rq = host login_rq) \<longrightarrow>
            redirect_uri st rq = redirect_uri st login_rq)"
proof (intro conjI impI)
  have cv: "signed_cookies rq ''code_verifier'' = Some (token_urlsafe login_ev 53)"
    by (simp add: assms(4) login_get_user [OF assms(1)] login_body_redirects [OF assms(2,3)]
        browser_store_login_verifier)
  from callback_get_sends [OF assms(5,6) cv assms(2), of ev]
  show "\<exists>code. code_param (view_of rq) = Some code \<and>
            fetches (SMARTCallbackHandler_get ev st rq) =
              [\<lparr>url = token_url cfg, http_method = ''POST'',
                headers = [(''Content-Type'', ''application/x-www-form-urlencoded'')],
                body = urlencode [(''client_id'', client_id st),
                                  (''grant_type'', ''authorization_code''),
                                  (''code'', code),
                                  (''code_verifier'', token_urlsafe login_ev 53),
                                  (''redirect_uri'', redirect_uri st rq)]\<rparr>]"
    by (simp add: token_request_def)
  show "outcome (SMARTLoginHandler_get login_ev st login_rq) =
           Inr (Redirect (auth_url cfg @ ''?'' @ urlencode
             [(''aud'', fhir_url cfg),
              (''state'', state_id (generate_state login_ev)),
              (''launch'', py_str l),
              (''redirect_uri'', redirect_uri st login_rq),
              (''client_id'', client_id st),
              (''code_challenge'', base64url_no_pad (sha256 login_ev (token_urlsafe login_ev 53))),
              (''code_challenge_method'', ''S256''),
              (''response_type'', ''code''),
              (''scope'', str_join '' '' (scopes st))]))"
    unfolding login_get_user [OF assms(1)] by (rule login_body_redirects [OF assms(2,3)])
  assume "smart_redirect_uri st \<noteq> [] \<or> (protocol rq = protocol login_rq \<and> host rq = host login_rq)"
  then show "redirect_uri st rq = redirect_uri st login_rq"
    by (rule redirect_uri_reproduced)
qed

theorem token_exchange_request_witness:
  "current_user demo_login \<noteq> None \<and> smart_config demo_settings = Some ehr_config \<and>
   launch demo_settings = Some None \<and>
   signed_cookies demo_callback =
     browser_store Map.empty
       (new_cookies (SMARTLoginHandler_get demo_env demo_settings demo_login)) \<and>
   current_user demo_callback \<noteq> None \<and> VALIDATING (view_of demo_callback) = EXCHANGING \<and>
   fetches (SMARTCallbackHandler_get demo_env demo_settings demo_callback) =
     [\<lparr>url = ''https://ehr.example.org/auth/token'', http_method = ''POST'',
       headers = [(''Content-Type'', ''application/x-www-form-urlencoded'')],
       body = ''client_id=jupyter&grant_type=authorization_code&code=c0de&code_verifier=dBjftJeZ4CVP-mB92K27uhbUJU1p1r_wW1gFWFOEjXk&redirect_uri=http%3A%2F%2Flocalhost%3A8888%2Fsmart%2Foauth_callback''\<rparr>] \<and>
   protocol demo_callback = protocol demo_login \<and> host demo_callback = host demo_login \<and>
   redirect_uri demo_settings demo_callback = redirect_uri demo_settings demo_login"
  using token_exchange_request [OF demo_login_facts(1) demo_settings_facts(1)
      demo_login_facts(3) demo_cookies_from_login(1) demo_callback_facts(1) demo_callback_view,
      of demo_env]
  by (simp add: demo_login_facts demo_settings_facts demo_cookies_from_login(1) [symmetric]
      demo_callback_facts demo_callback_view demo_callback_origin demo_env_facts
      ehr_config_facts)
     (simp add: rfc7636_verifier_def demo_token_body)

text \<open>
  C4 as stated does not hold: the login was requested under \<^verbatim>\<open>localhost:8888\<close> and
  sent that host in its redirect URI; the callback, with the login's cookies, arrives
  under \<^verbatim>\<open>127.0.0.1:8888\<close>, passes validation and sends a different redirect URI to
  the token endpoint.
\<close>

theorem callback_under_other_host_changes_redirect_uri:
  "current_user other_host_callback \<noteq> None \<and>
   signed_cookies other_host_callback =
     browser_store Map.empty
       (new_cookies (SMARTLoginHandler_get demo_env demo_settings demo_login)) \<and>
   VALIDATING (view_of other_host_callback) = EXCHANGING \<and>
   outcome (SMARTLoginHandler_get demo_env demo_settings demo_login) =
     Inr (Redirect ''https://ehr.example.org/auth/authorize?aud=https%3A%2F%2Fehr.example.org%2Ffhir&state=abc123&launch=None&redirect_uri=http%3A%2F%2Flocalhost%3A8888%2Fsmart%2Foauth_callback&client_id=jupyter&code_challenge=E9Melhoa2OwvFrEMTJguCHaoeK1t8URWbuGJSstw-cM&code_challenge_method=S256&response_type=code&scope=openid+profile+fhirUser+launch+patient%2F%2A.%2A'') \<and>
   map body (fetches (SMARTCallbackHandler_get demo_env demo_settings other_host_callback)) =
     [''client_id=jupyter&grant_type=authorization_code&code=c0de&code_verifier=dBjftJeZ4CVP-mB92K27uhbUJU1p1r_wW1gFWFOEjXk&redirect_uri=http%3A%2F%2F127.0.0.1%3A8888%2Fsmart%2Foauth_callback''] \<and>
   redirect_uri demo_settings other_host_callback \<noteq> redirect_uri demo_settings demo_login"
proof -
  from callback_get_sends [OF other_host_callback_facts(1,2,4) demo_settings_facts(1),
      of demo_env]
  have "fetches (SMARTCallbackHandler_get demo_env demo_settings other_host_callback) =
          [token_request demo_settings other_host_callback ehr_config ''c0de'' rfc7636_verifier]"
    by (simp add: other_host_callback_facts)
  then have "map body (fetches (SMARTCallbackHandler_get demo_env demo_settings
        other_host_callback)) =
     [''client_id=jupyter&grant_type=authorization_code&code=c0de&code_verifier=dBjftJeZ4CVP-mB92K27uhbUJU1p1r_wW1gFWFOEjXk&redirect_uri=http%3A%2F%2F127.0.0.1%3A8888%2Fsmart%2Foauth_callback'']"
    by (simp add: token_request_def demo_login_facts demo_callback_origin rfc7636_verifier_def
        demo_token_body)
  then show ?thesis
    using demo_cookies_from_login(2)
    by (simp add: other_host_callback_facts demo_login_run(1) demo_callback_origin
        demo_login_facts)
qed

subsection \<open>Replay\<close>

text \<open>
  C5, as the code has it. The callback handler sets and clears no cookie, so the browser's
  replay of a callback is the same request; where the first passed the five checks and the
  user is still logged in, the replay passes them again, sends another token request and
  ends as the token exchange does, never with the 400 of a failed check.
\<close>

theorem callback_keeps_stored_state:
  "new_cookies (SMARTCallbackHandler_get ev st rq) = [] \<and>
   rq\<lparr>signed_cookies :=
        browser_store (signed_cookies rq) (new_cookies (SMARTCallbackHandler_get ev st rq))\<rparr> = rq \<and>
   (current_user rq \<noteq> None \<and> VALIDATING (view_of rq) = EXCHANGING \<longrightarrow>
      (\<exists>code. code_param (view_of rq) = Some code \<and>
         fetches (SMARTCallbackHandler_get ev' st'
           (rq\<lparr>signed_cookies := browser_store (signed_cookies rq)
                 (new_cookies (SMARTCallbackHandler_get ev st rq))\<rparr>)) =
           snd (token_for_code ev' st' rq code) \<and>
         status_code (outcome (SMARTCallbackHandler_get ev' st'
           (rq\<lparr>signed_cookies := browser_store (signed_cookies rq)
                 (new_cookies (SMARTCallbackHandler_get ev st rq))\<rparr>))) \<noteq> 400))"
proof (intro conjI impI)
  show "new_cookies (SMARTCallbackHandler_get ev st rq) = []"
    by (rule callback_get_new_cookies)
  show "rq\<lparr>signed_cookies :=
        browser_store (signed_cookies rq) (new_cookies (SMARTCallbackHandler_get ev st rq))\<rparr> = rq"
    by (rule replay_same_request)
  assume a: "current_user rq \<noteq> None \<and> VALIDATING (view_of rq) = EXCHANGING"
  then have u: "current_user rq \<noteq> None" and v: "VALIDATING (view_of rq) = EXCHANGING"
    by simp_all
  from callback_get_exchanging [OF u v, of ev' st']
  obtain code where c: "code_param (view_of rq) = Some code"
    and f: "fetches (SMARTCallbackHandler_get ev' st' rq) = snd (token_for_code ev' st' rq code)"
    and o: "(case fst (token_for_code ev' st' rq code) of
              Inl e \<Rightarrow>
                outcome (SMARTCallbackHandler_get ev' st' rq) = Inl e \<and>
                settings_after (SMARTCallbackHandler_get ev' st' rq) = st'
            | Inr tok \<Rightarrow>
                settings_after (SMARTCallbackHandler_get ev' st' rq) =
                  st'\<lparr>smart_token := Some tok\<rparr> \<and>
                outcome (SMARTCallbackHandler_get ev' st' rq) =
                  (case next_url st' of
                     None \<Rightarrow> Inl (KeyError ''next_url'')
                   | Some u \<Rightarrow> Inr (Redirect u)))"
    by blast
  have s: "status_code (outcome (SMARTCallbackHandler_get ev' st' rq)) \<noteq> 400"
  proof (cases "fst (token_for_code ev' st' rq code)")
    case (Inl e)
    with o token_for_code_status [OF Inl] show ?thesis by simp
  next
    case (Inr tok)
    with o show ?thesis by (cases "next_url st'") simp_all
  qed
  show "\<exists>code. code_param (view_of rq) = Some code \<and>
         fetches (SMARTCallbackHandler_get ev' st'
           (rq\<lparr>signed_cookies := browser_store (signed_cookies rq)
                 (new_cookies (SMARTCallbackHandler_get ev st rq))\<rparr>)) =
           snd (token_for_code ev' st' rq code) \<and>
         status_code (outcome (SMARTCallbackHandler_get ev' st'
           (rq\<lparr>signed_cookies := browser_store (signed_cookies rq)
                 (new_cookies (SMARTCallbackHandler_get ev st rq))\<rparr>))) \<noteq> 400"
    unfolding replay_same_request using c f s by blast
qed

theorem callback_keeps_stored_state_witness:
  "current_user demo_callback \<noteq> None \<and> VALIDATING (view_of demo_callback) = EXCHANGING \<and>
   code_param (view_of demo_callback) = Some ''c0de'' \<and>
   fetches (SMARTCallbackHandler_get rejecting_env
     (settings_after (SMARTCallbackHandler_get demo_env demo_settings demo_callback))
     (demo_callback\<lparr>signed_cookies := browser_store (signed_cookies demo_callback)
        (new_cookies (SMARTCallbackHandler_get demo_env demo_settings demo_callback))\<rparr>)) =
     [token_request (demo_settings\<lparr>smart_token := Some (JStr ''tok_abc'')\<rparr>) demo_callback
        ehr_config ''c0de'' rfc7636_verifier]"
  using callback_keeps_stored_state [of demo_env demo_settings demo_callback rejecting_env
      "settings_after (SMARTCallbackHandler_get demo_env demo_settings demo_callback)"]
  by (simp add: demo_callback_facts demo_callback_view callback_get_new_cookies
      browser_store_def
      demo_callback_succeeds [OF demo_settings_facts(1) demo_settings_facts(2)]
      rejecting_env_token_for_code [OF demo_settings_after_callback(1)])

text \<open>
  C5 as stated does not hold: after a successful callback the browser's replay of the same
  code and state, with the cookies the responses left it, succeeds a second time.
\<close>

theorem replayed_callback_succeeds:
  "outcome (SMARTCallbackHandler_get demo_env demo_settings demo_callback) =
     Inr (Redirect ''/smart?iss=https%3A%2F%2Fehr.example.org%2Ffhir'') \<and>
   outcome (SMARTCallbackHandler_get demo_env
     (settings_after (SMARTCallbackHandler_get demo_env demo_settings demo_callback))
     (demo_callback\<lparr>signed_cookies := browser_store (signed_cookies demo_callback)
        (new_cookies (SMARTCallbackHandler_get demo_env demo_settings demo_callback))\<rparr>)) =
     Inr (Redirect ''/smart?iss=https%3A%2F%2Fehr.example.org%2Ffhir'') \<and>
   fetches (SMARTCallbackHandler_get demo_env
     (settings_after (SMARTCallbackHandler_get demo_env demo_settings demo_callback))
     (demo_callback\<lparr>signed_cookies := browser_store (signed_cookies demo_callback)
        (new_cookies (SMARTCallbackHandler_get demo_env demo_settings demo_callback))\<rparr>)) =
     [token_request (demo_settings\<lparr>smart_token := Some (JStr ''tok_abc'')\<rparr>) demo_callback
        ehr_config ''c0de'' rfc7636_verifier]"
  unfolding replay_same_request
  by (simp add: demo_callback_succeeds [OF demo_settings_facts(1) demo_settings_facts(2)]
      demo_callback_succeeds [OF demo_settings_after_callback])

subsection \<open>The launch parameter\<close>

text \<open>
  C6 fails on the code. A launch without a launch hint stores Python's \<^verbatim>\<open>None\<close> under
  \<^verbatim>\<open>launch\<close>, and the login that follows sends the parameter \<^verbatim>\<open>launch=None\<close>.
\<close>

theorem login_without_launch_hint_sends_None:
  "get_argument_or_None demo_launch ''launch'' = None \<and>
   launch (settings_after (SMARTAuthHandler_get demo_env fresh_settings demo_launch)) = Some None \<and>
   outcome (SMARTLoginHandler_get demo_env
     (settings_after (SMARTAuthHandler_get demo_env fresh_settings demo_launch)) demo_login) =
     Inr (Redirect ''https://ehr.example.org/auth/authorize?aud=https%3A%2F%2Fehr.example.org%2Ffhir&state=abc123&launch=None&redirect_uri=http%3A%2F%2Flocalhost%3A8888%2Fsmart%2Foauth_callback&client_id=jupyter&code_challenge=E9Melhoa2OwvFrEMTJguCHaoeK1t8URWbuGJSstw-cM&code_challenge_method=S256&response_type=code&scope=openid+profile+fhirUser+launch+patient%2F%2A.%2A'')"
proof -
  have "get_argument_or_None demo_launch ''launch'' = None"
    by (simp add: get_argument_or_None_def get_argument_def demo_launch_def)
  then show ?thesis
    by (simp add: demo_launch_run demo_login_facts demo_login_run)
qed

subsection \<open>Failure statuses\<close>

text \<open>
  C7, as the code has it. Every failing validation check is answered with status 400, the
  same for all five; every failure of the token exchange, an error answer of the token
  endpoint among them, is answered with status 500.
\<close>

theorem callback_failure_statuses:
  assumes "current_user rq \<noteq> None"
  shows "(\<forall>g f. VALIDATING (view_of rq) = FAILED g f \<longrightarrow>
            status_code (outcome (SMARTCallbackHandler_get ev st rq)) = 400) \<and>
         (\<forall>code e. VALIDATING (view_of rq) = EXCHANGING \<and>
            code_param (view_of rq) = Some code \<and>
            fst (token_for_code ev st rq code) = Inl e \<longrightarrow>
            outcome (SMARTCallbackHandler_get ev st rq) = Inl e \<and>
            status_code (outcome (SMARTCallbackHandler_get ev st rq)) = 500) \<and>
         (\<forall>code cv cfg c b. VALIDATING (view_of rq) = EXCHANGING \<and>
            code_param (view_of rq) = Some code \<and>
            signed_cookies rq ''code_verifier'' = Some cv \<and> smart_config st = Some cfg \<and>
            fetch ev (token_request st rq cfg code cv) = ClientError c (Some b) \<longrightarrow>
            outcome (SMARTCallbackHandler_get ev st rq) = Inl (HTTPClientError c) \<and>
            status_code (outcome (SMARTCallbackHandler_get ev st rq)) = 500)"
proof (intro conjI allI impI)
  fix g f
  assume v: "VALIDATING (view_of rq) = FAILED g f"
  show "status_code (outcome (SMARTCallbackHandler_get ev st rq)) = 400"
    by (simp add: callback_get_user [OF assms] callback_body_failed [OF v] run_simps
        raised_at_status)
next
  fix code e
  assume a: "VALIDATING (view_of rq) = EXCHANGING \<and> code_param (view_of rq) = Some code \<and>
            fst (token_for_code ev st rq code) = Inl e"
  then have v: "VALIDATING (view_of rq) = EXCHANGING" by simp
  from callback_get_exchanging [OF assms v, of ev st] a
  show o: "outcome (SMARTCallbackHandler_get ev st rq) = Inl e"
    by auto
  from a have "status_code (Inl e) = 500"
    by (auto dest: token_for_code_status)
  then show "status_code (outcome (SMARTCallbackHandler_get ev st rq)) = 500"
    by (simp add: o)
next
  fix code cv cfg c b
  assume a: "VALIDATING (view_of rq) = EXCHANGING \<and>
            code_param (view_of rq) = Some code \<and>
            signed_cookies rq ''code_verifier'' = Some cv \<and> smart_config st = Some cfg \<and>
            fetch ev (token_request st rq cfg code cv) = ClientError c (Some b)"
  then have v: "VALIDATING (view_of rq) = EXCHANGING" by simp
  from a have t: "fst (token_for_code ev st rq code) = Inl (HTTPClientError c)"
    by (simp add: token_for_code_sent [where cv = cv and cfg = cfg])
  from callback_get_exchanging [OF assms v, of ev st] a t
  show o: "outcome (SMARTCallbackHandler_get ev st rq) = Inl (HTTPClientError c)"
    by auto
  show "status_code (outcome (SMARTCallbackHandler_get ev st rq)) = 500"
    by (simp add: o)
qed

theorem callback_failure_statuses_witness:
  "current_user mismatch_callback \<noteq> None \<and>
   VALIDATING (view_of mismatch_callback) = FAILED StateParamDiffers StateMismatch \<and>
   status_code (outcome (SMARTCallbackHandler_get demo_env demo_settings mismatch_callback))
     = 400 \<and>
   current_user demo_callback \<noteq> None \<and>
   VALIDATING (view_of demo_callback) = EXCHANGING \<and>
   code_param (view_of demo_callback) = Some ''c0de'' \<and>
   signed_cookies demo_callback ''code_verifier'' = Some rfc7636_verifier \<and>
   smart_config demo_settings = Some ehr_config \<and>
   fetch rejecting_env
     (token_request demo_settings demo_callback ehr_config ''c0de'' rfc7636_verifier) =
     ClientError 400 (Some ''invalid_grant'') \<and>
   fst (token_for_code rejecting_env demo_settings demo_callback ''c0de'') =
     Inl (HTTPClientError 400) \<and>
   status_code (outcome (SMARTCallbackHandler_get rejecting_env demo_settings demo_callback))
     = 500"
proof -
  have u: "current_user mismatch_callback \<noteq> None"
    by (simp add: mismatch_callback_def demo_callback_def)
  have f: "fetch rejecting_env
     (token_request demo_settings demo_callback ehr_config ''c0de'' rfc7636_verifier) =
     ClientError 400 (Some ''invalid_grant'')"
    by (simp add: rejecting_env_def)
  show ?thesis
    using callback_failure_statuses [OF u, of demo_env demo_settings]
      callback_failure_statuses [OF demo_callback_facts(1), of rejecting_env demo_settings]
    by (simp add: u f mismatch_callback_view demo_callback_view demo_callback_facts
        demo_settings_facts rejecting_env_token_for_code [OF demo_settings_facts(1)])
qed

text \<open>
  C7 as stated does not hold: a token endpoint that answers the request with an error makes
  the callback end with status 500, not 502 or 504, and two different client-caused
  failures share the status 400.
\<close>

theorem upstream_failure_answers_500:
  "fetches (SMARTCallbackHandler_get rejecting_env demo_settings demo_callback) =
     [token_request demo_settings demo_callback ehr_config ''c0de'' rfc7636_verifier] \<and>
   fetch rejecting_env
     (token_request demo_settings demo_callback ehr_config ''c0de'' rfc7636_verifier) =
     ClientError 400 (Some ''invalid_grant'') \<and>
   outcome (SMARTCallbackHandler_get rejecting_env demo_settings demo_callback) =
     Inl (HTTPClientError 400) \<and>
   status_code (outcome (SMARTCallbackHandler_get rejecting_env demo_settings demo_callback))
     = 500 \<and>
   status_code (outcome (SMARTCallbackHandler_get demo_env demo_settings mismatch_callback))
     = 400 \<and>
   status_code (outcome (SMARTCallbackHandler_get demo_env demo_settings missing_code_callback))
     = 400"
proof -
  have u: "current_user mismatch_callback \<noteq> None" "current_user missing_code_callback \<noteq> None"
    by (simp_all add: mismatch_callback_def missing_code_callback_def demo_callback_def)
  have f: "fetch rejecting_env
     (token_request demo_settings demo_callback ehr_config ''c0de'' rfc7636_verifier) =
     ClientError 400 (Some ''invalid_grant'')"
    by (simp add: rejecting_env_def)
  show ?thesis
    by (simp add: demo_callback_rejected [OF demo_settings_facts(1)] f
        callback_get_user u
        callback_body_failed [OF mismatch_callback_view]
        callback_body_failed [OF missing_code_callback_view] run_simps raised_at_status
        del: raised_at.simps)
qed

subsection \<open>The issuer parameter\<close>

text \<open>
  C8. A launch whose \<^verbatim>\<open>iss\<close> parameter is empty, or is not a well-formed absolute URL,
  is answered with status 400; no outbound request is made and the settings stay as they
  were. The empty issuer is rejected by the handler itself, every other one by issuer
  discovery as the specification describes it.
\<close>

theorem malformed_issuer_rejected:
  assumes "current_user rq \<noteq> None" and "get_argument rq ''iss'' = Inr iss"
    and "iss = [] \<or> \<not> well_formed_absolute_url ev iss"
  shows "status_code (outcome (SMARTAuthHandler_get ev st rq)) = 400 \<and>
         fetches (SMARTAuthHandler_get ev st rq) = [] \<and>
         settings_after (SMARTAuthHandler_get ev st rq) = st"
proof (cases "iss = []")
  case True
  with assms(2) show ?thesis
    by (simp add: launch_get_user [OF assms(1)] SMARTAuthHandler_get_body_def
        get_argument_or_def run_simps)
next
  case False
  with assms(3) have "\<not> well_formed_absolute_url ev iss" by simp
  with False assms(2) show ?thesis
    by (simp add: launch_get_user [OF assms(1)] SMARTAuthHandler_get_body_def
        get_argument_or_def SMARTConfig_from_url_def run_simps)
qed

theorem malformed_issuer_rejected_witness:
  "current_user malformed_launch \<noteq> None \<and>
   get_argument malformed_launch ''iss'' = Inr ''not a url'' \<and>
   \<not> well_formed_absolute_url demo_env ''not a url'' \<and>
   status_code (outcome (SMARTAuthHandler_get demo_env fresh_settings malformed_launch)) = 400 \<and>
   fetches (SMARTAuthHandler_get demo_env fresh_settings malformed_launch) = [] \<and>
   settings_after (SMARTAuthHandler_get demo_env fresh_settings malformed_launch) =
     fresh_settings"
proof -
  have f: "current_user malformed_launch \<noteq> None"
    "get_argument malformed_launch ''iss'' = Inr ''not a url''"
    "\<not> well_formed_absolute_url demo_env ''not a url''"
    by (simp_all add: malformed_launch_def demo_launch_def get_argument_def demo_env_def)
  from f(3) have "''not a url'' = [] \<or> \<not> well_formed_absolute_url demo_env ''not a url''"
    by simp
  from malformed_issuer_rejected [OF f(1,2) this, of fresh_settings] f
  show ?thesis by simp
qed

subsection \<open>The redirect after the callback\<close>

text \<open>
  C9, as the code has it. In settings a server can reach, and in any settings with
  \<^verbatim>\<open>next_url\<close> set, a callback of an authenticated user that passes the five checks
  and whose token exchange returns a token ends with a redirect, status 302, to the
  \<^verbatim>\<open>next_url\<close> of the process-wide settings. No callback ends with any other
  response; the \<^verbatim>\<open>next_url\<close> cookie has no part in the run; and the settings value
  is the URI of the launch request, written by the launch handler when it redirects to
  the login.
\<close>

theorem callback_redirects_to_settings_next_url:
  assumes "current_user rq \<noteq> None" and "VALIDATING (view_of rq) = EXCHANGING"
    and "code_param (view_of rq) = Some code"
    and "fst (token_for_code ev st rq code) = Inr tok"
    and "reachable st \<or> next_url st \<noteq> None"
  shows "(\<exists>u. next_url st = Some u \<and>
            outcome (SMARTCallbackHandler_get ev st rq) = Inr (Redirect u)) \<and>
         status_code (outcome (SMARTCallbackHandler_get ev st rq)) = 302 \<and>
         (\<forall>ev' st' resp. outcome (SMARTCallbackHandler_get ev' st' rq) = Inr resp \<longrightarrow>
            (\<exists>u. next_url st' = Some u \<and> resp = Redirect u)) \<and>
         (\<forall>v. SMARTCallbackHandler_get ev st
                 (rq\<lparr>signed_cookies := (signed_cookies rq)(''next_url'' := v)\<rparr>) =
               SMARTCallbackHandler_get ev st rq) \<and>
         (current_user rq0 \<noteq> None \<longrightarrow>
            (\<forall>l. outcome (SMARTAuthHandler_get ev0 st0 rq0) = Inr (Redirect l) \<longrightarrow>
               next_url (settings_after (SMARTAuthHandler_get ev0 st0 rq0)) = Some (uri rq0)))"
proof -
  from callback_get_exchanging [OF assms(1,2), of ev st] assms(3)
  have o: "(case fst (token_for_code ev st rq code) of
              Inl e \<Rightarrow>
                outcome (SMARTCallbackHandler_get ev st rq) = Inl e \<and>
                settings_after (SMARTCallbackHandler_get ev st rq) = st
            | Inr tok \<Rightarrow>
                settings_after (SMARTCallbackHandler_get ev st rq) =
                  st\<lparr>smart_token := Some tok\<rparr> \<and>
                outcome (SMARTCallbackHandler_get ev st rq) =
                  (case next_url st of
                     None \<Rightarrow> Inl (KeyError ''next_url'')
                   | Some u \<Rightarrow> Inr (Redirect u)))"
    by auto
  have "next_url st \<noteq> None"
  proof (cases "reachable st")
    case True
    from token_for_code_needs_config [OF assms(4)] reachable_next_url_known [OF True]
    show ?thesis by (auto simp: next_url_known_def)
  next
    case False
    with assms(5) show ?thesis by simp
  qed
  then obtain u where n: "next_url st = Some u" by auto
  from o have r: "outcome (SMARTCallbackHandler_get ev st rq) = Inr (Redirect u)"
    by (simp add: assms(4) n)
  have b: "\<forall>ev' st' resp. outcome (SMARTCallbackHandler_get ev' st' rq) = Inr resp \<longrightarrow>
            (\<exists>u. next_url st' = Some u \<and> resp = Redirect u)"
    using callback_get_responds [OF assms(1)] by blast
  have c: "\<forall>v. SMARTCallbackHandler_get ev st
                 (rq\<lparr>signed_cookies := (signed_cookies rq)(''next_url'' := v)\<rparr>) =
               SMARTCallbackHandler_get ev st rq"
    by (simp add: callback_get_next_url_cookie)
  have l: "current_user rq0 \<noteq> None \<longrightarrow>
            (\<forall>l. outcome (SMARTAuthHandler_get ev0 st0 rq0) = Inr (Redirect l) \<longrightarrow>
               next_url (settings_after (SMARTAuthHandler_get ev0 st0 rq0)) = Some (uri rq0))"
    using launch_redirect_stores_uri by blast
  from n r b c l show ?thesis by simp
qed

theorem callback_redirects_to_settings_next_url_witness:
  "current_user demo_callback \<noteq> None \<and>
   VALIDATING (view_of demo_callback) = EXCHANGING \<and>
   code_param (view_of demo_callback) = Some ''c0de'' \<and>
   fst (token_for_code demo_env demo_settings demo_callback ''c0de'') = Inr (JStr ''tok_abc'') \<and>
   reachable demo_settings \<and>
   next_url demo_settings = Some ''/smart?iss=https%3A%2F%2Fehr.example.org%2Ffhir'' \<and>
   outcome (SMARTCallbackHandler_get demo_env demo_settings demo_callback) =
     Inr (Redirect ''/smart?iss=https%3A%2F%2Fehr.example.org%2Ffhir'') \<and>
   status_code (outcome (SMARTCallbackHandler_get demo_env demo_settings demo_callback)) = 302 \<and>
   current_user demo_launch \<noteq> None \<and>
   outcome (SMARTAuthHandler_get demo_env fresh_settings demo_launch) =
     Inr (Redirect ''/smart/login'') \<and>
   next_url (settings_after (SMARTAuthHandler_get demo_env fresh_settings demo_launch)) =
     Some (uri demo_launch)"
proof -
  have t: "fst (token_for_code demo_env demo_settings demo_callback ''c0de'') =
      Inr (JStr ''tok_abc'')"
    by (simp add: demo_env_token_for_code [OF demo_settings_facts(1)])
  have r: "reachable demo_settings \<or> next_url demo_settings \<noteq> None"
    by (simp add: demo_settings_reachable)
  note k = callback_redirects_to_settings_next_url
    [OF demo_callback_facts(1) demo_callback_view demo_callback_facts(2) t r,
     of demo_launch demo_env fresh_settings]
  have u: "current_user demo_launch \<noteq> None"
    by (simp add: demo_launch_def)
  from k have a: "\<exists>u. next_url demo_settings = Some u \<and>
      outcome (SMARTCallbackHandler_get demo_env demo_settings demo_callback) =
        Inr (Redirect u)"
    by (rule conjunct1)
  from k have s: "status_code (outcome (SMARTCallbackHandler_get demo_env demo_settings
      demo_callback)) = 302"
    by (rule conjunct2 [THEN conjunct1])
  from k [THEN conjunct2, THEN conjunct2, THEN conjunct2, THEN conjunct2, rule_format,
      OF u demo_launch_run(1)]
  have n: "next_url (settings_after (SMARTAuthHandler_get demo_env fresh_settings
      demo_launch)) = Some (uri demo_launch)" .
  from a s n t u show ?thesis
    by (auto simp: demo_callback_facts demo_callback_view demo_settings_facts
        demo_settings_reachable demo_launch_run(1))
qed

text \<open>
  C9 as stated does not hold: the login has put \<^verbatim>\<open>/lab\<close> into the signed
  \<^verbatim>\<open>next_url\<close> cookie, and the successful callback that brings the cookie back
  redirects to the URI held in the settings.
\<close>

theorem callback_ignores_next_url_cookie:
  "signed_cookies lab_cookie_callback =
     browser_store Map.empty
       (new_cookies (SMARTLoginHandler_get lab_env demo_settings demo_login)) \<and>
   get_signed_cookie lab_cookie_callback ''next_url'' = Some ''/lab'' \<and>
   outcome (SMARTCallbackHandler_get demo_env demo_settings lab_cookie_callback) =
     Inr (Redirect ''/smart?iss=https%3A%2F%2Fehr.example.org%2Ffhir'')"
proof -
  have "get_signed_cookie lab_cookie_callback ''next_url'' = Some ''/lab''"
    by (simp add: lab_cookie_callback_def get_signed_cookie_def)
  moreover have "outcome (SMARTCallbackHandler_get demo_env demo_settings lab_cookie_callback) =
     Inr (Redirect ''/smart?iss=https%3A%2F%2Fehr.example.org%2Ffhir'')"
    by (simp add: lab_cookie_callback_run
        demo_callback_succeeds [OF demo_settings_facts(1) demo_settings_facts(2)])
  ultimately show ?thesis
    using lab_cookies_from_login by simp
qed

subsection \<open>The token slot\<close>

text \<open>
  C10. A callback that fails in validation or in the token exchange leaves the settings,
  and with them the token slot, as they were; the slot changes only to the token a
  successful exchange returned; and in every settings a server can reach, as in every
  settings with \<^verbatim>\<open>next_url\<close> set, no failing callback changes the settings at all.
\<close>

theorem failed_callback_keeps_token:
  "(VALIDATING (view_of rq) \<noteq> EXCHANGING \<longrightarrow>
      settings_after (SMARTCallbackHandler_get ev st rq) = st) \<and>
   (\<forall>code e. code_param (view_of rq) = Some code \<and>
      fst (token_for_code ev st rq code) = Inl e \<longrightarrow>
      settings_after (SMARTCallbackHandler_get ev st rq) = st) \<and>
   (smart_token (settings_after (SMARTCallbackHandler_get ev st rq)) \<noteq> smart_token st \<longrightarrow>
      (\<exists>code tok. VALIDATING (view_of rq) = EXCHANGING \<and>
         code_param (view_of rq) = Some code \<and>
         fst (token_for_code ev st rq code) = Inr tok \<and>
         smart_token (settings_after (SMARTCallbackHandler_get ev st rq)) = Some tok)) \<and>
   (reachable st \<or> next_url st \<noteq> None \<longrightarrow>
      (\<forall>e. outcome (SMARTCallbackHandler_get ev st rq) = Inl e \<longrightarrow>
         settings_after (SMARTCallbackHandler_get ev st rq) = st))"
proof -
  have r: "reachable st \<longrightarrow>
      (\<forall>e. outcome (SMARTCallbackHandler_get ev st rq) = Inl e \<longrightarrow>
         settings_after (SMARTCallbackHandler_get ev st rq) = st)"
    by (auto dest: failed_callback_reachable)
  have "(VALIDATING (view_of rq) \<noteq> EXCHANGING \<longrightarrow>
      settings_after (SMARTCallbackHandler_get ev st rq) = st) \<and>
   (\<forall>code e. code_param (view_of rq) = Some code \<and>
      fst (token_for_code ev st rq code) = Inl e \<longrightarrow>
      settings_after (SMARTCallbackHandler_get ev st rq) = st) \<and>
   (smart_token (settings_after (SMARTCallbackHandler_get ev st rq)) \<noteq> smart_token st \<longrightarrow>
      (\<exists>code tok. VALIDATING (view_of rq) = EXCHANGING \<and>
         code_param (view_of rq) = Some code \<and>
         fst (token_for_code ev st rq code) = Inr tok \<and>
         smart_token (settings_after (SMARTCallbackHandler_get ev st rq)) = Some tok)) \<and>
   (next_url st \<noteq> None \<longrightarrow>
      (\<forall>e. outcome (SMARTCallbackHandler_get ev st rq) = Inl e \<longrightarrow>
         settings_after (SMARTCallbackHandler_get ev st rq) = st))"
  proof (cases "current_user rq")
    case None
    then show ?thesis by (simp add: callback_get_anonymous)
  next
    case (Some usr)
    then have u: "current_user rq \<noteq> None" by simp
    show ?thesis
    proof (cases "VALIDATING (view_of rq)")
      case (FAILED g f)
      then show ?thesis by (simp add: callback_get_failed [OF FAILED])
    next
      case EXCHANGING
      from callback_get_exchanging [OF u EXCHANGING, of ev st]
      obtain code where c: "code_param (view_of rq) = Some code"
        and o: "(case fst (token_for_code ev st rq code) of
                Inl e \<Rightarrow>
                  outcome (SMARTCallbackHandler_get ev st rq) = Inl e \<and>
                  settings_after (SMARTCallbackHandler_get ev st rq) = st
              | Inr tok \<Rightarrow>
                  settings_after (SMARTCallbackHandler_get ev st rq) =
                    st\<lparr>smart_token := Some tok\<rparr> \<and>
                  outcome (SMARTCallbackHandler_get ev st rq) =
                    (case next_url st of
                       None \<Rightarrow> Inl (KeyError ''next_url'')
                     | Some u \<Rightarrow> Inr (Redirect u)))"
        by blast
      show ?thesis
      proof (cases "fst (token_for_code ev st rq code)")
        case (Inl e)
        with o have "settings_after (SMARTCallbackHandler_get ev st rq) = st" by simp
        then show ?thesis by simp
      next
        case (Inr tok)
        with o have s: "settings_after (SMARTCallbackHandler_get ev st rq) =
                    st\<lparr>smart_token := Some tok\<rparr>"
          and r: "outcome (SMARTCallbackHandler_get ev st rq) =
                    (case next_url st of
                       None \<Rightarrow> Inl (KeyError ''next_url'')
                     | Some u \<Rightarrow> Inr (Redirect u))"
          by simp_all
        show ?thesis
          using EXCHANGING c Inr by (auto simp: s r)
      qed
    qed
  qed
  with r show ?thesis by blast
qed

theorem failed_callback_keeps_token_witness:
  "VALIDATING (view_of mismatch_callback) \<noteq> EXCHANGING \<and>
   settings_after (SMARTCallbackHandler_get demo_env logged_in_settings mismatch_callback) =
     logged_in_settings \<and>
   code_param (view_of demo_callback) = Some ''c0de'' \<and>
   fst (token_for_code rejecting_env logged_in_settings demo_callback ''c0de'') =
     Inl (HTTPClientError 400) \<and>
   settings_after (SMARTCallbackHandler_get rejecting_env logged_in_settings demo_callback) =
     logged_in_settings \<and>
   smart_token (settings_after (SMARTCallbackHandler_get demo_env logged_in_settings demo_callback))
     \<noteq> smart_token logged_in_settings \<and>
   fst (token_for_code demo_env logged_in_settings demo_callback ''c0de'') =
     Inr (JStr ''tok_abc'') \<and>
   smart_token (settings_after (SMARTCallbackHandler_get demo_env logged_in_settings demo_callback))
     = Some (JStr ''tok_abc'') \<and>
   reachable demo_settings \<and>
   outcome (SMARTCallbackHandler_get rejecting_env demo_settings demo_callback) =
     Inl (HTTPClientError 400) \<and>
   settings_after (SMARTCallbackHandler_get rejecting_env demo_settings demo_callback) =
     demo_settings"
proof -
  note k = failed_callback_keeps_token
  have a: "VALIDATING (view_of mismatch_callback) \<noteq> EXCHANGING"
    by (simp add: mismatch_callback_view)
  have c1: "settings_after (SMARTCallbackHandler_get demo_env logged_in_settings
      mismatch_callback) = logged_in_settings"
    by (rule k [THEN conjunct1, rule_format, OF a])
  have b: "code_param (view_of demo_callback) = Some ''c0de'' \<and>
      fst (token_for_code rejecting_env logged_in_settings demo_callback ''c0de'') =
        Inl (HTTPClientError 400)"
    by (simp add: demo_callback_facts rejecting_env_token_for_code [OF demo_settings_facts(4)])
  have c2: "settings_after (SMARTCallbackHandler_get rejecting_env logged_in_settings
      demo_callback) = logged_in_settings"
    by (rule k [THEN conjunct2, THEN conjunct1, rule_format, OF b])
  have t: "smart_token (settings_after (SMARTCallbackHandler_get demo_env logged_in_settings
      demo_callback)) = Some (JStr ''tok_abc'')"
    by (simp add: demo_callback_succeeds [OF demo_settings_facts(4) demo_settings_facts(5)])
  then have d: "smart_token (settings_after (SMARTCallbackHandler_get demo_env
      logged_in_settings demo_callback)) \<noteq> smart_token logged_in_settings"
    by (simp add: demo_settings_facts)
  from k [THEN conjunct2, THEN conjunct2, THEN conjunct1, rule_format, OF d]
  have c3: "fst (token_for_code demo_env logged_in_settings demo_callback ''c0de'') =
      Inr (JStr ''tok_abc'')"
    by (simp add: demo_callback_facts t)
  have e: "reachable demo_settings \<or> next_url demo_settings \<noteq> None"
    by (simp add: demo_settings_reachable)
  have o: "outcome (SMARTCallbackHandler_get rejecting_env demo_settings demo_callback) =
      Inl (HTTPClientError 400)"
    by (simp add: demo_callback_rejected [OF demo_settings_facts(1)])
  have c4: "settings_after (SMARTCallbackHandler_get rejecting_env demo_settings
      demo_callback) = demo_settings"
    by (rule k [THEN conjunct2, THEN conjunct2, THEN conjunct2, rule_format, OF e o])
  from a c1 b c2 d c3 t o c4 show ?thesis
    by (simp add: demo_settings_reachable)
qed

end
